theory Spec2Isabelle
  imports Main "HOL-Library.Word"
begin

unbundle bit_operations_syntax

section \<open>The virtio-iommu device (hw/virtio/virtio-iommu.c)\<close>

subsection \<open>Protocol constants\<close>

text \<open>
  The protocol header (standard-headers/linux/virtio\_iommu.h) and the memory API header
  are not part of the sources at hand; the constants below carry the values the
  specification's section 6 lists (status codes in order from \<open>OK = 0\<close>, map flags
  \<open>READ = 1\<close>, \<open>WRITE = 2\<close>) and the usual encoding of the access flags.
\<close>

definition VIRTIO_IOMMU_S_OK :: int where "VIRTIO_IOMMU_S_OK = 0"
definition VIRTIO_IOMMU_S_IOERR :: int where "VIRTIO_IOMMU_S_IOERR = 1"
definition VIRTIO_IOMMU_S_UNSUPP :: int where "VIRTIO_IOMMU_S_UNSUPP = 2"
definition VIRTIO_IOMMU_S_DEVERR :: int where "VIRTIO_IOMMU_S_DEVERR = 3"
definition VIRTIO_IOMMU_S_INVAL :: int where "VIRTIO_IOMMU_S_INVAL = 4"
definition VIRTIO_IOMMU_S_RANGE :: int where "VIRTIO_IOMMU_S_RANGE = 5"
definition VIRTIO_IOMMU_S_NOENT :: int where "VIRTIO_IOMMU_S_NOENT = 6"

definition VIRTIO_IOMMU_T_ATTACH :: "8 word" where "VIRTIO_IOMMU_T_ATTACH = 1"
definition VIRTIO_IOMMU_T_DETACH :: "8 word" where "VIRTIO_IOMMU_T_DETACH = 2"
definition VIRTIO_IOMMU_T_MAP :: "8 word" where "VIRTIO_IOMMU_T_MAP = 3"
definition VIRTIO_IOMMU_T_UNMAP :: "8 word" where "VIRTIO_IOMMU_T_UNMAP = 4"
definition VIRTIO_IOMMU_T_PROBE :: "8 word" where "VIRTIO_IOMMU_T_PROBE = 5"

definition VIRTIO_IOMMU_MAP_F_READ :: "32 word" where "VIRTIO_IOMMU_MAP_F_READ = 1"
definition VIRTIO_IOMMU_MAP_F_WRITE :: "32 word" where "VIRTIO_IOMMU_MAP_F_WRITE = 2"

definition VIRTIO_IOMMU_FAULT_R_UNKNOWN :: "8 word" where "VIRTIO_IOMMU_FAULT_R_UNKNOWN = 0"
definition VIRTIO_IOMMU_FAULT_R_DOMAIN :: "8 word" where "VIRTIO_IOMMU_FAULT_R_DOMAIN = 1"
definition VIRTIO_IOMMU_FAULT_R_MAPPING :: "8 word" where "VIRTIO_IOMMU_FAULT_R_MAPPING = 2"

definition VIRTIO_IOMMU_FAULT_F_READ :: "32 word" where "VIRTIO_IOMMU_FAULT_F_READ = 1"
definition VIRTIO_IOMMU_FAULT_F_WRITE :: "32 word" where "VIRTIO_IOMMU_FAULT_F_WRITE = 2"
definition VIRTIO_IOMMU_FAULT_F_ADDRESS :: "32 word" where "VIRTIO_IOMMU_FAULT_F_ADDRESS = 256"

definition VIRTIO_IOMMU_RESV_MEM_T_RESERVED :: "8 word" where
  "VIRTIO_IOMMU_RESV_MEM_T_RESERVED = 0"
definition VIRTIO_IOMMU_RESV_MEM_T_MSI :: "8 word" where
  "VIRTIO_IOMMU_RESV_MEM_T_MSI = 1"

definition VIRTIO_IOMMU_F_BYPASS :: nat where "VIRTIO_IOMMU_F_BYPASS = 3"

definition IOMMU_NONE :: "32 word" where "IOMMU_NONE = 0"
definition IOMMU_RO :: "32 word" where "IOMMU_RO = 1"
definition IOMMU_WO :: "32 word" where "IOMMU_WO = 2"
definition IOMMU_RW :: "32 word" where "IOMMU_RW = 3"

subsection \<open>Data model\<close>

record viommu_interval =
  low :: "64 word"
  high :: "64 word"

record viommu_mapping =
  phys_addr :: "64 word"
  flags :: "32 word"

text \<open>
  GLib's \<open>GTree\<close> is an AVL tree driven by a caller-supplied comparator. The tree is
  kept as a binary tree of (key, value) nodes. Every search descends from the root and
  calls the comparator with the searched key first and the node's key second, as GLib
  does. The mapping tables use \<open>interval_cmp\<close>, which is not a total order, so the
  shape of the tree decides what a search meets, and insertion and removal rebalance as
  GLib does: GLib keeps in each node the difference of the heights of its subtrees and,
  walking up from the place of the change, applies \<open>g_tree_node_balance\<close> to a node
  whose difference has left the range from \<open>-1\<close> to \<open>1\<close>. Here the difference is
  computed from the heights, and \<open>g_tree_node_balance\<close> leaves a node in that range
  as it is.
\<close>

datatype ('k, 'v) gtree = Leaf | Node "('k, 'v) gtree" 'k 'v "('k, 'v) gtree"

fun inorder :: "('k, 'v) gtree \<Rightarrow> ('k \<times> 'v) list" where
  "inorder Leaf = []"
| "inorder (Node l k v r) = inorder l @ (k, v) # inorder r"

fun height :: "('k, 'v) gtree \<Rightarrow> nat" where
  "height Leaf = 0"
| "height (Node l k v r) = Suc (max (height l) (height r))"

text \<open>The \<open>balance\<close> member of a node: height of the right subtree minus height of the
  left one.\<close>

fun balance :: "('k, 'v) gtree \<Rightarrow> int" where
  "balance Leaf = 0"
| "balance (Node l k v r) = int (height r) - int (height l)"

fun g_tree_node_rotate_left :: "('k, 'v) gtree \<Rightarrow> ('k, 'v) gtree" where
  "g_tree_node_rotate_left (Node a k v (Node b k' v' c)) = Node (Node a k v b) k' v' c"
| "g_tree_node_rotate_left t = t"

fun g_tree_node_rotate_right :: "('k, 'v) gtree \<Rightarrow> ('k, 'v) gtree" where
  "g_tree_node_rotate_right (Node (Node a k v b) k' v' c) = Node a k v (Node b k' v' c)"
| "g_tree_node_rotate_right t = t"

fun g_tree_node_balance :: "('k, 'v) gtree \<Rightarrow> ('k, 'v) gtree" where
  "g_tree_node_balance Leaf = Leaf"
| "g_tree_node_balance (Node l k v r) =
     (if balance (Node l k v r) < -1 then
        g_tree_node_rotate_right
          (Node (if balance l > 0 then g_tree_node_rotate_left l else l) k v r)
      else if balance (Node l k v r) > 1 then
        g_tree_node_rotate_left
          (Node l k v (if balance r < 0 then g_tree_node_rotate_right r else r))
      else Node l k v r)"

fun g_tree_lookup_extended ::
  "('k \<Rightarrow> 'k \<Rightarrow> int) \<Rightarrow> ('k, 'v) gtree \<Rightarrow> 'k \<Rightarrow> ('k \<times> 'v) option" where
  "g_tree_lookup_extended cmp Leaf key = None"
| "g_tree_lookup_extended cmp (Node l k v r) key =
     (if cmp key k = 0 then Some (k, v)
      else if cmp key k < 0 then g_tree_lookup_extended cmp l key
      else g_tree_lookup_extended cmp r key)"

definition g_tree_lookup :: "('k \<Rightarrow> 'k \<Rightarrow> int) \<Rightarrow> ('k, 'v) gtree \<Rightarrow> 'k \<Rightarrow> 'v option" where
  "g_tree_lookup cmp t key = map_option snd (g_tree_lookup_extended cmp t key)"

text \<open>\<open>g_tree_insert\<close>: a key that compares equal to a node keeps the node's key and
  replaces its value; otherwise a new node is added where the search ended, and the nodes
  on the way back to the root are rebalanced.\<close>

fun g_tree_insert ::
  "('k \<Rightarrow> 'k \<Rightarrow> int) \<Rightarrow> ('k, 'v) gtree \<Rightarrow> 'k \<Rightarrow> 'v \<Rightarrow> ('k, 'v) gtree" where
  "g_tree_insert cmp Leaf key val = Node Leaf key val Leaf"
| "g_tree_insert cmp (Node l k v r) key val =
     (if cmp key k = 0 then Node l k val r
      else if cmp key k < 0 then g_tree_node_balance (Node (g_tree_insert cmp l key val) k v r)
      else g_tree_node_balance (Node l k v (g_tree_insert cmp r key val)))"

text \<open>\<open>split_min l k v r\<close> unlinks the leftmost node of \<open>Node l k v r\<close>, the in-order
  successor that takes the place of a removed node with two children.\<close>

fun split_min :: "('k, 'v) gtree \<Rightarrow> 'k \<Rightarrow> 'v \<Rightarrow> ('k, 'v) gtree \<Rightarrow> ('k \<times> 'v) \<times> ('k, 'v) gtree" where
  "split_min Leaf k v r = ((k, v), r)"
| "split_min (Node ll lk lv lr) k v r =
     (case split_min ll lk lv lr of (m, l') \<Rightarrow> (m, g_tree_node_balance (Node l' k v r)))"

text \<open>\<open>g_tree_remove\<close>: the node the search for \<open>key\<close> ends at is unlinked and its
  key and value are freed. A node with one subtree is replaced by that subtree, a node
  with two by its in-order successor; the nodes on the way back to the root are
  rebalanced. A search that ends at no node leaves the tree as it is.\<close>

fun g_tree_remove :: "('k \<Rightarrow> 'k \<Rightarrow> int) \<Rightarrow> ('k, 'v) gtree \<Rightarrow> 'k \<Rightarrow> ('k, 'v) gtree" where
  "g_tree_remove cmp Leaf key = Leaf"
| "g_tree_remove cmp (Node l k v r) key =
     (if cmp key k = 0 then
        (case l of
           Leaf \<Rightarrow> r
         | Node _ _ _ _ \<Rightarrow>
             (case r of
                Leaf \<Rightarrow> l
              | Node rl rk rv rr \<Rightarrow>
                  (case split_min rl rk rv rr of
                     ((mk, mv), r') \<Rightarrow> g_tree_node_balance (Node l mk mv r'))))
      else if cmp key k < 0 then g_tree_node_balance (Node (g_tree_remove cmp l key) k v r)
      else g_tree_node_balance (Node l k v (g_tree_remove cmp r key)))"

text \<open>\<open>g_tree_foreach\<close>: in-order traversal; the callback receives key, value and the
  state it works on, and a callback that returns \<open>True\<close> stops the traversal.\<close>

fun foreach_list :: "('k \<Rightarrow> 'v \<Rightarrow> 'w \<Rightarrow> bool \<times> 'w) \<Rightarrow> ('k \<times> 'v) list \<Rightarrow> 'w \<Rightarrow> 'w" where
  "foreach_list f [] w = w"
| "foreach_list f ((k, v) # kvs) w =
     (case f k v w of (stop, w') \<Rightarrow> if stop then w' else foreach_list f kvs w')"

definition g_tree_foreach ::
  "('k, 'v) gtree \<Rightarrow> ('k \<Rightarrow> 'v \<Rightarrow> 'w \<Rightarrow> bool \<times> 'w) \<Rightarrow> 'w \<Rightarrow> 'w" where
  "g_tree_foreach t f w = foreach_list f (inorder t) w"

text \<open>
  The domain and endpoint tables are \<open>GTree\<close>s keyed by the 32-bit id under
  \<open>int_cmp\<close>, a total order: every shape of such a tree answers every lookup alike, so
  a table is kept as its in-order listing, ascending by id.
\<close>

type_synonym 'v id_tree = "(32 word \<times> 'v) list"

definition id_tree_lookup :: "'v id_tree \<Rightarrow> 32 word \<Rightarrow> 'v option" where
  "id_tree_lookup t k = map_of t k"

fun id_tree_insert :: "'v id_tree \<Rightarrow> 32 word \<Rightarrow> 'v \<Rightarrow> 'v id_tree" where
  "id_tree_insert [] k v = [(k, v)]"
| "id_tree_insert ((k', v') # t) k v =
     (if k < k' then (k, v) # (k', v') # t
      else if k = k' then (k', v) # t
      else (k', v') # id_tree_insert t k v)"

text \<open>
  A domain owns its mapping tree; \<open>d_mappings_ref\<close> is the tree's reference count.
  \<open>d_endpoint_list\<close> is the list of attached endpoints, head first; an endpoint in
  the list is named by its id, and an endpoint's \<open>e_domain\<close> names its domain by id
  (\<open>None\<close> for the NULL pointer). Neither table ever loses an entry while the device
  runs, so an id stands for the record a C pointer designates.

  \<open>virtio_iommu_detach_endpoint_from_domain\<close> reads the device from a member
  \<open>viommu\<close> of the endpoint. The declaration of \<open>struct viommu_endpoint\<close> has no
  such member, and no statement of the file assigns one. The record carries it as the
  function needs it: \<open>e_viommu\<close> says whether the pointer designates the device;
  \<open>False\<close> is the NULL pointer that \<open>g_malloc0\<close> leaves in every endpoint
  \<open>virtio_iommu_get_endpoint\<close> creates.
\<close>

record viommu_domain =
  d_id :: "32 word"
  d_mappings :: "(viommu_interval, viommu_mapping) gtree"
  d_mappings_ref :: nat
  d_endpoint_list :: "32 word list"

record viommu_endpoint =
  e_id :: "32 word"
  e_domain :: "32 word option"
  e_viommu :: bool

record IOMMUDevice =
  bus_num :: "8 word"
  devfn :: "8 word"

record ReservedRegion =
  r_low :: "64 word"
  r_high :: "64 word"
  r_type :: "8 word"

record IOMMUTLBEntry =
  iova :: "64 word"
  translated_addr :: "64 word"
  addr_mask :: "64 word"
  perm :: "32 word"

text \<open>A notification is the entry handed to \<open>memory_region_notify_iommu\<close>, together
  with the device whose memory region receives it.\<close>

type_synonym notification = "IOMMUDevice \<times> IOMMUTLBEntry"

record VirtIOIOMMU =
  domains :: "viommu_domain id_tree"
  endpoints :: "viommu_endpoint id_tree"
  notifiers_list :: "IOMMUDevice list"
  reserved_regions :: "ReservedRegion list"
  acked_features :: "64 word"
  page_size_mask :: "64 word"
  probe_size :: nat

definition virtio_iommu_get_sid :: "IOMMUDevice \<Rightarrow> 16 word" where
  "virtio_iommu_get_sid dev = push_bit 8 (ucast (bus_num dev)) OR ucast (devfn dev)"

definition interval_cmp :: "viommu_interval \<Rightarrow> viommu_interval \<Rightarrow> int" where
  "interval_cmp inta intb =
     (if high inta < low intb then -1
      else if high intb < low inta then 1
      else 0)"

subsection \<open>Notifications\<close>

definition virtio_iommu_notify_map ::
  "IOMMUDevice \<Rightarrow> 64 word \<Rightarrow> 64 word \<Rightarrow> 64 word \<Rightarrow> notification" where
  "virtio_iommu_notify_map mr iova' paddr size' =
     (mr, \<lparr>iova = iova', translated_addr = paddr, addr_mask = size' - 1, perm = IOMMU_RW\<rparr>)"

definition virtio_iommu_notify_unmap :: "IOMMUDevice \<Rightarrow> 64 word \<Rightarrow> 64 word \<Rightarrow> notification" where
  "virtio_iommu_notify_unmap mr iova' size' =
     (mr, \<lparr>iova = iova', translated_addr = 0, addr_mask = size' - 1, perm = IOMMU_NONE\<rparr>)"

definition virtio_iommu_mapping_unmap ::
  "IOMMUDevice \<Rightarrow> viommu_interval \<Rightarrow> viommu_mapping \<Rightarrow> notification list
     \<Rightarrow> bool \<times> notification list" where
  "virtio_iommu_mapping_unmap mr interval val out =
     (False, out @ [virtio_iommu_notify_unmap mr (low interval)
                      (high interval - low interval + 1)])"

definition virtio_iommu_mapping_map ::
  "IOMMUDevice \<Rightarrow> viommu_interval \<Rightarrow> viommu_mapping \<Rightarrow> notification list
     \<Rightarrow> bool \<times> notification list" where
  "virtio_iommu_mapping_map mr interval mapping out =
     (False, out @ [virtio_iommu_notify_map mr (low interval) (phys_addr mapping)
                      (high interval - low interval + 1)])"

definition virtio_iommu_remap ::
  "IOMMUDevice \<Rightarrow> viommu_interval \<Rightarrow> viommu_mapping \<Rightarrow> notification list
     \<Rightarrow> bool \<times> notification list" where
  "virtio_iommu_remap mr interval mapping out =
     (False, out @ [virtio_iommu_notify_unmap mr (low interval)
                      (high interval - low interval + 1),
                    virtio_iommu_notify_map mr (low interval) (phys_addr mapping)
                      (high interval - low interval + 1)])"

subsection \<open>Endpoints and domains\<close>

text \<open>\<open>g_tree_ref\<close> and \<open>g_tree_unref\<close> on a domain's mapping tree. Dropping the
  last reference destroys the tree.\<close>

definition g_tree_ref :: "viommu_domain \<Rightarrow> viommu_domain" where
  "g_tree_ref d = d\<lparr>d_mappings_ref := d_mappings_ref d + 1\<rparr>"

definition g_tree_unref :: "viommu_domain \<Rightarrow> viommu_domain" where
  "g_tree_unref d =
     (if d_mappings_ref d \<le> 1 then d\<lparr>d_mappings := Leaf, d_mappings_ref := 0\<rparr>
      else d\<lparr>d_mappings_ref := d_mappings_ref d - 1\<rparr>)"

text \<open>A fault that ends the process: the dereference of a NULL pointer.\<close>

datatype fault = Null_dereference

text \<open>
  \<open>virtio_iommu_detach_endpoint_from_domain\<close>. The first argument is the store that
  holds the tables, the second the endpoint the C pointer designates. The function first
  reads the device \<open>s\<close> from \<open>ep->viommu\<close> and walks \<open>s->notifiers_list\<close>: with
  the NULL pointer this is a NULL dereference, before anything is sent or changed. With
  the pointer set, \<open>s\<close> is the device itself. \<open>ep->domain\<close> is dereferenced too (its
  callers test it first). The two \<open>Inr (dev, [])\<close> branches stand for an endpoint or
  domain pointer that designates no record and are never taken from a state the device
  builds.
\<close>

definition virtio_iommu_detach_endpoint_from_domain ::
  "VirtIOIOMMU \<Rightarrow> 32 word \<Rightarrow> fault + (VirtIOIOMMU \<times> notification list)" where
  "virtio_iommu_detach_endpoint_from_domain dev ep_key =
     (case id_tree_lookup (endpoints dev) ep_key of
        None \<Rightarrow> Inr (dev, [])
      | Some ep \<Rightarrow>
          if \<not> e_viommu ep then Inl Null_dereference
          else
            (let s = dev in
             case e_domain ep of
               None \<Rightarrow> Inl Null_dereference
             | Some dkey \<Rightarrow>
                 (case id_tree_lookup (domains s) dkey of
                    None \<Rightarrow> Inr (dev, [])
                  | Some domain \<Rightarrow>
                      (let out = fold (\<lambda>node out.
                                   if e_id ep = ucast (virtio_iommu_get_sid node)
                                   then g_tree_foreach (d_mappings domain)
                                          (virtio_iommu_mapping_unmap node) out
                                   else out) (notifiers_list s) [];
                           domain' = g_tree_unref
                             (domain\<lparr>d_endpoint_list := remove1 ep_key (d_endpoint_list domain)\<rparr>)
                       in Inr (s\<lparr>domains := id_tree_insert (domains s) dkey domain',
                                 endpoints := id_tree_insert (endpoints s) ep_key
                                                (ep\<lparr>e_domain := None\<rparr>)\<rparr>, out)))))"

definition virtio_iommu_get_endpoint :: "VirtIOIOMMU \<Rightarrow> 32 word \<Rightarrow> VirtIOIOMMU \<times> viommu_endpoint" where
  "virtio_iommu_get_endpoint s ep_id =
     (case id_tree_lookup (endpoints s) ep_id of
        Some ep \<Rightarrow> (s, ep)
      | None \<Rightarrow>
          (let ep = \<lparr>e_id = ep_id, e_domain = None, e_viommu = False\<rparr>
           in (s\<lparr>endpoints := id_tree_insert (endpoints s) ep_id ep\<rparr>, ep)))"

definition virtio_iommu_get_domain :: "VirtIOIOMMU \<Rightarrow> 32 word \<Rightarrow> VirtIOIOMMU \<times> viommu_domain" where
  "virtio_iommu_get_domain s domain_id =
     (case id_tree_lookup (domains s) domain_id of
        Some domain \<Rightarrow> (s, domain)
      | None \<Rightarrow>
          (let domain = \<lparr>d_id = domain_id, d_mappings = Leaf, d_mappings_ref = 1,
                         d_endpoint_list = []\<rparr>
           in (s\<lparr>domains := id_tree_insert (domains s) domain_id domain\<rparr>, domain)))"

subsection \<open>Command handlers\<close>

text \<open>The request records hold the fields after \<open>le32_to_cpu\<close> and
  \<open>le64_to_cpu\<close>. A handler returns its status, the device state and the
  notifications it sent, in order; ATTACH and DETACH return the fault instead when the
  process faults.\<close>

record virtio_iommu_req_attach =
  attach_domain :: "32 word"
  attach_endpoint :: "32 word"

record virtio_iommu_req_detach =
  detach_domain :: "32 word"
  detach_endpoint :: "32 word"

record virtio_iommu_req_map =
  map_domain :: "32 word"
  map_virt_start :: "64 word"
  map_virt_end :: "64 word"
  map_phys_start :: "64 word"
  map_flags :: "32 word"

record virtio_iommu_req_unmap =
  unmap_domain :: "32 word"
  unmap_virt_start :: "64 word"
  unmap_virt_end :: "64 word"

record virtio_iommu_req_probe =
  probe_endpoint :: "32 word"

text \<open>The replay loop of \<open>virtio_iommu_attach\<close>: every notifier whose stream id is
  the endpoint's id receives each mapping of the tree as a MAP notification.\<close>

definition attach_replay ::
  "IOMMUDevice list \<Rightarrow> 32 word \<Rightarrow> (viommu_interval, viommu_mapping) gtree \<Rightarrow> notification list" where
  "attach_replay nodes ep_id t =
     fold (\<lambda>node out.
             if ep_id = ucast (virtio_iommu_get_sid node)
             then g_tree_foreach t (virtio_iommu_mapping_map node) out
             else out) nodes []"

definition virtio_iommu_attach ::
  "VirtIOIOMMU \<Rightarrow> virtio_iommu_req_attach
     \<Rightarrow> fault + (int \<times> VirtIOIOMMU \<times> notification list)" where
  "virtio_iommu_attach s req =
     (let domain_id = attach_domain req;
          ep_id = attach_endpoint req;
          (s1, ep) = virtio_iommu_get_endpoint s ep_id
      in case (if e_domain ep \<noteq> None
               then virtio_iommu_detach_endpoint_from_domain s1 ep_id
               else Inr (s1, [])) of
           Inl f \<Rightarrow> Inl f
         | Inr (s2, out1) \<Rightarrow>
             (let (s3, domain) = virtio_iommu_get_domain s2 domain_id;
                  domain' = g_tree_ref
                    (domain\<lparr>d_endpoint_list := ep_id # d_endpoint_list domain\<rparr>);
                  s4 = s3\<lparr>domains := id_tree_insert (domains s3) domain_id domain',
                          endpoints := id_tree_insert (endpoints s3) ep_id
                                         (ep\<lparr>e_domain := Some domain_id\<rparr>)\<rparr>;
                  out2 = attach_replay (notifiers_list s4) (e_id ep) (d_mappings domain')
              in Inr (VIRTIO_IOMMU_S_OK, s4, out1 @ out2)))"

definition virtio_iommu_detach ::
  "VirtIOIOMMU \<Rightarrow> virtio_iommu_req_detach
     \<Rightarrow> fault + (int \<times> VirtIOIOMMU \<times> notification list)" where
  "virtio_iommu_detach s req =
     (let ep_id = detach_endpoint req in
      case id_tree_lookup (endpoints s) ep_id of
        None \<Rightarrow> Inr (VIRTIO_IOMMU_S_NOENT, s, [])
      | Some ep \<Rightarrow>
          if e_domain ep = None then Inr (VIRTIO_IOMMU_S_INVAL, s, [])
          else (case virtio_iommu_detach_endpoint_from_domain s ep_id of
                  Inl f \<Rightarrow> Inl f
                | Inr (s', out) \<Rightarrow> Inr (VIRTIO_IOMMU_S_OK, s', out)))"

text \<open>The fan-out loop shared by MAP and by the removal of a mapping: notifiers outside,
  the domain's endpoints inside.\<close>

definition domain_fanout ::
  "IOMMUDevice list \<Rightarrow> 32 word list \<Rightarrow> (IOMMUDevice \<Rightarrow> notification) \<Rightarrow> notification list" where
  "domain_fanout nodes eps notify =
     fold (\<lambda>node out.
             fold (\<lambda>ep out. if ep = ucast (virtio_iommu_get_sid node)
                             then out @ [notify node] else out) eps out) nodes []"

definition virtio_iommu_map ::
  "VirtIOIOMMU \<Rightarrow> virtio_iommu_req_map \<Rightarrow> int \<times> VirtIOIOMMU \<times> notification list" where
  "virtio_iommu_map s req =
     (let domain_id = map_domain req;
          phys_start = map_phys_start req;
          virt_start = map_virt_start req;
          virt_end = map_virt_end req;
          interval = \<lparr>low = virt_start, high = virt_end\<rparr>
      in case id_tree_lookup (domains s) domain_id of
           None \<Rightarrow> (VIRTIO_IOMMU_S_NOENT, s, [])
         | Some domain \<Rightarrow>
             (case g_tree_lookup interval_cmp (d_mappings domain) interval of
                Some mapping \<Rightarrow> (VIRTIO_IOMMU_S_INVAL, s, [])
              | None \<Rightarrow>
                  (let mapping = \<lparr>phys_addr = phys_start, flags = map_flags req\<rparr>;
                       domain' = domain\<lparr>d_mappings :=
                         g_tree_insert interval_cmp (d_mappings domain) interval mapping\<rparr>
                   in (VIRTIO_IOMMU_S_OK,
                       s\<lparr>domains := id_tree_insert (domains s) domain_id domain'\<rparr>,
                       domain_fanout (notifiers_list s) (d_endpoint_list domain')
                         (\<lambda>node. virtio_iommu_notify_map node virt_start phys_start
                                    (virt_end - virt_start + 1))))))"

text \<open>
  \<open>virtio_iommu_remove_mapping\<close>. \<open>g_tree_remove\<close> frees the key of the node it
  unlinks, and the function reads \<open>interval->low\<close> and \<open>interval->high\<close> for the
  notifications after that. The node unlinked is the one the search for \<open>interval\<close>
  ends at; when its key is \<open>interval\<close> itself the bounds are read from freed memory,
  and the notifications carry whatever it holds then: \<open>freed\<close>, an argument. When the
  search ends at no node, or at a node with other bounds, the key read is still live.
\<close>

definition virtio_iommu_remove_mapping ::
  "viommu_interval \<Rightarrow> IOMMUDevice list \<Rightarrow> viommu_domain \<Rightarrow> viommu_interval
     \<Rightarrow> viommu_domain \<times> notification list" where
  "virtio_iommu_remove_mapping freed nodes domain interval =
     (let after_remove =
            (case g_tree_lookup_extended interval_cmp (d_mappings domain) interval of
               None \<Rightarrow> interval
             | Some (k, v) \<Rightarrow> if k = interval then freed else interval)
      in (domain\<lparr>d_mappings := g_tree_remove interval_cmp (d_mappings domain) interval\<rparr>,
          domain_fanout nodes (d_endpoint_list domain)
            (\<lambda>node. virtio_iommu_notify_unmap node (low after_remove)
                       (high after_remove - low after_remove + 1))))"

text \<open>The \<open>while\<close> loop of \<open>virtio_iommu_unmap\<close>. Nothing in the loop bounds the
  number of iterations, so the loop is a partial function: \<open>None\<close> is a loop that never
  leaves. \<open>freed n\<close> is what the freed key holds in turn \<open>n\<close> of the loop.\<close>

partial_function (option) unmap_loop ::
  "(nat \<Rightarrow> viommu_interval) \<Rightarrow> nat \<Rightarrow> IOMMUDevice list \<Rightarrow> viommu_interval \<Rightarrow> viommu_domain
     \<Rightarrow> notification list \<Rightarrow> (int \<times> viommu_domain \<times> notification list) option" where
  "unmap_loop freed n nodes interval domain out =
     (case g_tree_lookup_extended interval_cmp (d_mappings domain) interval of
        None \<Rightarrow> Some (VIRTIO_IOMMU_S_OK, domain, out)
      | Some (iter_key, iter_val) \<Rightarrow>
          if low interval \<le> low iter_key \<and> high interval \<ge> high iter_key
          then (case virtio_iommu_remove_mapping (freed n) nodes domain iter_key of
                  (domain', out') \<Rightarrow>
                    unmap_loop freed (Suc n) nodes interval domain' (out @ out'))
          else Some (VIRTIO_IOMMU_S_RANGE, domain, out))"

definition virtio_iommu_unmap ::
  "(nat \<Rightarrow> viommu_interval) \<Rightarrow> VirtIOIOMMU \<Rightarrow> virtio_iommu_req_unmap
     \<Rightarrow> (int \<times> VirtIOIOMMU \<times> notification list) option" where
  "virtio_iommu_unmap freed s req =
     (let domain_id = unmap_domain req;
          interval = \<lparr>low = unmap_virt_start req, high = unmap_virt_end req\<rparr>
      in case id_tree_lookup (domains s) domain_id of
           None \<Rightarrow> Some (VIRTIO_IOMMU_S_NOENT, s, [])
         | Some domain \<Rightarrow>
             (case unmap_loop freed 0 (notifiers_list s) interval domain [] of
                None \<Rightarrow> None
              | Some (ret, domain', out) \<Rightarrow>
                  Some (ret, s\<lparr>domains := id_tree_insert (domains s) domain_id domain'\<rparr>, out)))"

subsection \<open>Translation\<close>

record virtio_iommu_fault =
  f_reason :: "8 word"
  f_flags :: "32 word"
  f_endpoint :: "32 word"
  f_address :: "64 word"

definition ctz32 :: "32 word \<Rightarrow> nat" where
  "ctz32 v = length (takeWhile Not (map (bit v) [0..<32]))"

text \<open>The loop over the reserved regions: the first region that holds the address
  decides, by its type.\<close>

fun resv_scan :: "ReservedRegion list \<Rightarrow> 64 word \<Rightarrow> 8 word option" where
  "resv_scan [] a = None"
| "resv_scan (r # rs) a =
     (if a \<ge> r_low r \<and> a \<le> r_high r then Some (r_type r) else resv_scan rs a)"

text \<open>
  \<open>virtio_iommu_translate\<close> returns the entry and the fault records it hands to
  \<open>virtio_iommu_report_fault\<close>. \<open>addr_mask\<close> is computed in 32-bit \<open>int\<close>
  arithmetic and widened. The branch for a domain key that designates no domain stands for
  a dangling pointer and is never taken from a state the device builds.
\<close>

definition virtio_iommu_translate ::
  "VirtIOIOMMU \<Rightarrow> IOMMUDevice \<Rightarrow> 64 word \<Rightarrow> 32 word
     \<Rightarrow> IOMMUTLBEntry \<times> virtio_iommu_fault list" where
  "virtio_iommu_translate s sdev addr flag =
     (let interval = \<lparr>low = addr, high = addr + 1\<rparr>;
          entry = \<lparr>iova = addr, translated_addr = addr,
                   addr_mask = scast (push_bit (ctz32 (ucast (page_size_mask s))) (1 :: 32 word) - 1),
                   perm = IOMMU_NONE\<rparr>;
          bypass_allowed = bit (acked_features s) VIRTIO_IOMMU_F_BYPASS;
          sid = (ucast (virtio_iommu_get_sid sdev) :: 32 word)
      in case id_tree_lookup (endpoints s) sid of
           None \<Rightarrow>
             if \<not> bypass_allowed
             then (entry, [\<lparr>f_reason = VIRTIO_IOMMU_FAULT_R_UNKNOWN, f_flags = 0,
                             f_endpoint = sid, f_address = 0\<rparr>])
             else (entry\<lparr>perm := flag\<rparr>, [])
         | Some ep \<Rightarrow>
             (case resv_scan (reserved_regions s) addr of
                Some t \<Rightarrow>
                  if t = VIRTIO_IOMMU_RESV_MEM_T_MSI then (entry\<lparr>perm := flag\<rparr>, [])
                  else (entry, [\<lparr>f_reason = VIRTIO_IOMMU_FAULT_R_MAPPING, f_flags = 0,
                                  f_endpoint = sid, f_address = addr\<rparr>])
              | None \<Rightarrow>
                  (case e_domain ep of
                     None \<Rightarrow>
                       if \<not> bypass_allowed
                       then (entry, [\<lparr>f_reason = VIRTIO_IOMMU_FAULT_R_DOMAIN, f_flags = 0,
                                       f_endpoint = sid, f_address = 0\<rparr>])
                       else (entry\<lparr>perm := flag\<rparr>, [])
                   | Some dkey \<Rightarrow>
                       (case id_tree_lookup (domains s) dkey of
                          None \<Rightarrow> (entry, [])
                        | Some domain \<Rightarrow>
                            (case g_tree_lookup_extended interval_cmp (d_mappings domain) interval of
                               None \<Rightarrow>
                                 (entry, [\<lparr>f_reason = VIRTIO_IOMMU_FAULT_R_MAPPING, f_flags = 0,
                                            f_endpoint = sid, f_address = addr\<rparr>])
                             | Some (mapping_key, mapping_value) \<Rightarrow>
                                 (let read_fault = (flag AND IOMMU_RO \<noteq> 0 \<and>
                                        flags mapping_value AND VIRTIO_IOMMU_MAP_F_READ = 0);
                                      write_fault = (flag AND IOMMU_WO \<noteq> 0 \<and>
                                        flags mapping_value AND VIRTIO_IOMMU_MAP_F_WRITE = 0);
                                      fl = (if read_fault then VIRTIO_IOMMU_FAULT_F_READ else 0) OR
                                           (if write_fault then VIRTIO_IOMMU_FAULT_F_WRITE else 0)
                                  in if fl \<noteq> 0
                                     then (entry, [\<lparr>f_reason = VIRTIO_IOMMU_FAULT_R_MAPPING,
                                                     f_flags = fl OR VIRTIO_IOMMU_FAULT_F_ADDRESS,
                                                     f_endpoint = sid, f_address = addr\<rparr>])
                                     else (entry\<lparr>translated_addr :=
                                                    addr - low mapping_key + phys_addr mapping_value,
                                                  perm := flag\<rparr>, [])))))))"

definition virtio_iommu_replay :: "VirtIOIOMMU \<Rightarrow> IOMMUDevice \<Rightarrow> notification list" where
  "virtio_iommu_replay s sdev =
     (let sid = (ucast (virtio_iommu_get_sid sdev) :: 32 word)
      in case id_tree_lookup (endpoints s) sid of
           None \<Rightarrow> []
         | Some ep \<Rightarrow>
             (case e_domain ep of
                None \<Rightarrow> []
              | Some dkey \<Rightarrow>
                  (case id_tree_lookup (domains s) dkey of
                     None \<Rightarrow> []
                   | Some domain \<Rightarrow>
                       g_tree_foreach (d_mappings domain) (virtio_iommu_remap sdev) [])))"

subsection \<open>The command queue\<close>

text \<open>
  An element of the request queue: the bytes of its out-buffers, in order, and the total
  size of its in-buffers.
\<close>

record VirtQueueElement =
  out_sg :: "8 word list"
  in_size :: nat

datatype element_result = Virtio_error | Assert_failed | Segfault | Pushed "8 word list"

definition sizeof_head :: nat where "sizeof_head = 4"
definition sizeof_tail :: nat where "sizeof_tail = 4"

text \<open>
  Modelled from the spec: the sizes and field offsets of the request structures, which the
  protocol header declares and the sources at hand do not hold. They follow the wire
  layout of the specification's section 6: the head, the listed fields in order with no
  padding, and the tail (the PROBE request ends with its reserved bytes; its tail follows
  the property buffer).
\<close>

definition sizeof_req_attach :: nat where "sizeof_req_attach = 24"
definition sizeof_req_detach :: nat where "sizeof_req_detach = 24"
definition sizeof_req_map :: nat where "sizeof_req_map = 40"
definition sizeof_req_unmap :: nat where "sizeof_req_unmap = 32"
definition sizeof_req_probe :: nat where "sizeof_req_probe = 72"

fun le_word :: "8 word list \<Rightarrow> 'a::len word" where
  "le_word [] = 0"
| "le_word (b # bs) = ucast b OR push_bit 8 (le_word bs)"

definition le32_to_cpu :: "8 word list \<Rightarrow> nat \<Rightarrow> 32 word" where
  "le32_to_cpu buf off = le_word (take 4 (drop off buf))"

definition le64_to_cpu :: "8 word list \<Rightarrow> nat \<Rightarrow> 64 word" where
  "le64_to_cpu buf off = le_word (take 8 (drop off buf))"

definition req_attach_of :: "8 word list \<Rightarrow> virtio_iommu_req_attach" where
  "req_attach_of buf = \<lparr>attach_domain = le32_to_cpu buf 4, attach_endpoint = le32_to_cpu buf 8\<rparr>"

definition req_detach_of :: "8 word list \<Rightarrow> virtio_iommu_req_detach" where
  "req_detach_of buf = \<lparr>detach_domain = le32_to_cpu buf 4, detach_endpoint = le32_to_cpu buf 8\<rparr>"

definition req_map_of :: "8 word list \<Rightarrow> virtio_iommu_req_map" where
  "req_map_of buf =
     \<lparr>map_domain = le32_to_cpu buf 4, map_virt_start = le64_to_cpu buf 8,
      map_virt_end = le64_to_cpu buf 16, map_phys_start = le64_to_cpu buf 24,
      map_flags = le32_to_cpu buf 32\<rparr>"

definition req_unmap_of :: "8 word list \<Rightarrow> virtio_iommu_req_unmap" where
  "req_unmap_of buf =
     \<lparr>unmap_domain = le32_to_cpu buf 4, unmap_virt_start = le64_to_cpu buf 8,
      unmap_virt_end = le64_to_cpu buf 16\<rparr>"

definition req_probe_of :: "8 word list \<Rightarrow> virtio_iommu_req_probe" where
  "req_probe_of buf = \<lparr>probe_endpoint = le32_to_cpu buf 4\<rparr>"

text \<open>\<open>iov_to_buf\<close> copies as many bytes as the buffers hold, up to the size asked
  for, and returns the number of bytes copied.\<close>

definition iov_to_buf :: "8 word list \<Rightarrow> nat \<Rightarrow> nat \<times> 8 word list" where
  "iov_to_buf iov n = (min (length iov) n, take n iov)"

definition virtio_iommu_iov_to_req :: "8 word list \<Rightarrow> nat \<Rightarrow> int \<times> 8 word list" where
  "virtio_iommu_iov_to_req iov req_sz =
     (let payload_sz = req_sz - sizeof_tail
      in case iov_to_buf iov payload_sz of
           (sz, req) \<Rightarrow> if sz \<noteq> payload_sz then (VIRTIO_IOMMU_S_INVAL, req) else (0, req))"

definition virtio_iommu_handle_attach ::
  "VirtIOIOMMU \<Rightarrow> 8 word list \<Rightarrow> fault + (int \<times> VirtIOIOMMU \<times> notification list)" where
  "virtio_iommu_handle_attach s iov =
     (case virtio_iommu_iov_to_req iov sizeof_req_attach of
        (ret, req) \<Rightarrow>
          if ret \<noteq> 0 then Inr (ret, s, []) else virtio_iommu_attach s (req_attach_of req))"

definition virtio_iommu_handle_detach ::
  "VirtIOIOMMU \<Rightarrow> 8 word list \<Rightarrow> fault + (int \<times> VirtIOIOMMU \<times> notification list)" where
  "virtio_iommu_handle_detach s iov =
     (case virtio_iommu_iov_to_req iov sizeof_req_detach of
        (ret, req) \<Rightarrow>
          if ret \<noteq> 0 then Inr (ret, s, []) else virtio_iommu_detach s (req_detach_of req))"

definition virtio_iommu_handle_map ::
  "VirtIOIOMMU \<Rightarrow> 8 word list \<Rightarrow> int \<times> VirtIOIOMMU \<times> notification list" where
  "virtio_iommu_handle_map s iov =
     (case virtio_iommu_iov_to_req iov sizeof_req_map of
        (ret, req) \<Rightarrow> if ret \<noteq> 0 then (ret, s, []) else virtio_iommu_map s (req_map_of req))"

definition virtio_iommu_handle_unmap ::
  "(nat \<Rightarrow> viommu_interval) \<Rightarrow> VirtIOIOMMU \<Rightarrow> 8 word list
     \<Rightarrow> (int \<times> VirtIOIOMMU \<times> notification list) option" where
  "virtio_iommu_handle_unmap freed s iov =
     (case virtio_iommu_iov_to_req iov sizeof_req_unmap of
        (ret, req) \<Rightarrow>
          if ret \<noteq> 0 then Some (ret, s, []) else virtio_iommu_unmap freed s (req_unmap_of req))"

definition VIOMMU_PROBE_SIZE :: nat where "VIOMMU_PROBE_SIZE = 512"

definition sizeof_probe_property :: nat where "sizeof_probe_property = 4"

definition le_bytes :: "nat \<Rightarrow> 'a::len word \<Rightarrow> 8 word list" where
  "le_bytes n w = map (\<lambda>i. ucast (drop_bit (8 * i) w)) [0..<n]"

text \<open>
  Modelled from the spec: the reserved-memory property record of section 6, \<open>type\<close>
  and \<open>length\<close> of 16 bits, \<open>subtype\<close>, \<open>start\<close> and \<open>end\<close> of 64 bits; the
  structure itself is declared in the protocol header.
\<close>

definition resv_mem_prop :: "ReservedRegion \<Rightarrow> 8 word list" where
  "resv_mem_prop r =
     le_bytes 2 (1 :: 16 word) @ le_bytes 2 (24 :: 16 word) @
     le_bytes 8 (ucast (r_type r) :: 64 word) @ le_bytes 8 (r_low r) @ le_bytes 8 (r_high r)"

definition sizeof_resv_mem_prop :: nat where "sizeof_resv_mem_prop = 28"

text \<open>\<open>virtio_iommu_probe\<close> fills a zeroed buffer of \<open>probe_size\<close> bytes: the
  properties, then the all-zero NONE property. The result is the status and the buffer.\<close>

definition virtio_iommu_probe ::
  "VirtIOIOMMU \<Rightarrow> virtio_iommu_req_probe \<Rightarrow> int \<times> 8 word list" where
  "virtio_iommu_probe s req =
     (let free = VIOMMU_PROBE_SIZE - sizeof_probe_property;
          total = sizeof_resv_mem_prop * length (reserved_regions s)
      in if total > free then (VIRTIO_IOMMU_S_INVAL, replicate (probe_size s) 0)
         else (let props = concat (map resv_mem_prop (reserved_regions s))
               in (VIRTIO_IOMMU_S_OK, props @ replicate (probe_size s - length props) 0)))"

definition virtio_iommu_handle_probe :: "VirtIOIOMMU \<Rightarrow> 8 word list \<Rightarrow> int \<times> 8 word list" where
  "virtio_iommu_handle_probe s iov =
     (case virtio_iommu_iov_to_req iov sizeof_req_probe of
        (ret, req) \<Rightarrow>
          if ret \<noteq> 0 then (ret, replicate (probe_size s) 0)
          else virtio_iommu_probe s (req_probe_of req))"

definition tail_bytes :: "int \<Rightarrow> 8 word list" where
  "tail_bytes status = [word_of_int status, 0, 0, 0]"

text \<open>
  One turn of the loop of \<open>virtio_iommu_handle_command\<close>, for the element popped from
  the queue: \<open>Virtio_error\<close> is the \<open>virtio_error\<close> exit, \<open>Assert_failed\<close> a failed
  \<open>assert\<close>, \<open>Segfault\<close> a handler that faults, \<open>Pushed bs\<close> the bytes written to
  the in-buffers of an element that is pushed back. \<open>None\<close> is an UNMAP whose loop never
  leaves. \<open>freed\<close> is what freed keys hold while an UNMAP runs.
\<close>

definition handle_element ::
  "(nat \<Rightarrow> viommu_interval) \<Rightarrow> VirtIOIOMMU \<Rightarrow> VirtQueueElement
     \<Rightarrow> (element_result \<times> VirtIOIOMMU \<times> notification list) option" where
  "handle_element freed s elem =
     (let iov = out_sg elem in
      if in_size elem < sizeof_tail \<or> length iov < sizeof_head then Some (Virtio_error, s, [])
      else (case iov_to_buf iov sizeof_head of
        (sz, head) \<Rightarrow>
          if sz \<noteq> sizeof_head then Some (Pushed (tail_bytes VIRTIO_IOMMU_S_DEVERR), s, [])
          else if hd head = VIRTIO_IOMMU_T_ATTACH then
            (case virtio_iommu_handle_attach s iov of
               Inl f \<Rightarrow> Some (Segfault, s, [])
             | Inr (st, s', out) \<Rightarrow> Some (Pushed (tail_bytes st), s', out))
          else if hd head = VIRTIO_IOMMU_T_DETACH then
            (case virtio_iommu_handle_detach s iov of
               Inl f \<Rightarrow> Some (Segfault, s, [])
             | Inr (st, s', out) \<Rightarrow> Some (Pushed (tail_bytes st), s', out))
          else if hd head = VIRTIO_IOMMU_T_MAP then
            (case virtio_iommu_handle_map s iov of
               (st, s', out) \<Rightarrow> Some (Pushed (tail_bytes st), s', out))
          else if hd head = VIRTIO_IOMMU_T_UNMAP then
            (case virtio_iommu_handle_unmap freed s iov of
               None \<Rightarrow> None
             | Some (st, s', out) \<Rightarrow> Some (Pushed (tail_bytes st), s', out))
          else if hd head = VIRTIO_IOMMU_T_PROBE then
            (case virtio_iommu_handle_probe s iov of
               (st, buf) \<Rightarrow>
                 if in_size elem < probe_size s + sizeof_tail then Some (Assert_failed, s, [])
                 else Some (Pushed (buf @ tail_bytes st), s, []))
          else Some (Pushed (tail_bytes VIRTIO_IOMMU_S_UNSUPP), s, [])))"

fun virtio_iommu_handle_command ::
  "(nat \<Rightarrow> viommu_interval) \<Rightarrow> VirtIOIOMMU \<Rightarrow> VirtQueueElement list
     \<Rightarrow> (element_result list \<times> VirtIOIOMMU \<times> notification list) option" where
  "virtio_iommu_handle_command freed s [] = Some ([], s, [])"
| "virtio_iommu_handle_command freed s (elem # vq) =
     (case handle_element freed s elem of
        None \<Rightarrow> None
      | Some (r, s', out) \<Rightarrow>
          (case r of
             Pushed bs \<Rightarrow>
               (case virtio_iommu_handle_command freed s' vq of
                  None \<Rightarrow> None
                | Some (rs, s'', out') \<Rightarrow> Some (r # rs, s'', out @ out'))
           | _ \<Rightarrow> Some ([r], s', out)))"

subsection \<open>Migration\<close>

text \<open>
  Modelled from the spec: the stream of section 4.6. The generic tree and list codecs of
  the migration layer (\<open>VMSTATE_GTREE_V\<close>, \<open>VMSTATE_GTREE_DIRECT_KEY_V\<close>,
  \<open>VMSTATE_QLIST_V\<close>) are not part of the sources at hand. Saving writes the domain
  table and the endpoint table in ascending order of their keys; a domain is written as
  its id, the (interval, mapping) pairs of its tree in order, and the ids of its endpoint
  list in list order; an endpoint is written as its id only. Loading rebuilds a tree or a
  list by inserting what it reads, in the order read, into an empty one.
\<close>

record domain_image =
  img_id :: "32 word"
  img_mappings :: "(viommu_interval \<times> viommu_mapping) list"
  img_endpoints :: "32 word list"

record snapshot =
  snap_domains :: "(32 word \<times> domain_image) list"
  snap_endpoints :: "(32 word \<times> 32 word) list"

definition save_domain :: "viommu_domain \<Rightarrow> domain_image" where
  "save_domain d =
     \<lparr>img_id = d_id d, img_mappings = inorder (d_mappings d), img_endpoints = d_endpoint_list d\<rparr>"

definition vmstate_save :: "VirtIOIOMMU \<Rightarrow> snapshot" where
  "vmstate_save s =
     \<lparr>snap_domains = map (\<lambda>(k, d). (k, save_domain d)) (domains s),
      snap_endpoints = map (\<lambda>(k, ep). (k, e_id ep)) (endpoints s)\<rparr>"

text \<open>\<open>domain_preload\<close> (from the source) gives the zeroed domain record its empty
  tree, ordered by \<open>interval_cmp\<close>.\<close>

definition domain_preload :: viommu_domain where
  "domain_preload = \<lparr>d_id = 0, d_mappings = Leaf, d_mappings_ref = 1, d_endpoint_list = []\<rparr>"

definition load_mappings ::
  "(viommu_interval \<times> viommu_mapping) list \<Rightarrow> (viommu_interval, viommu_mapping) gtree" where
  "load_mappings kvs = fold (\<lambda>(k, v) t. g_tree_insert interval_cmp t k v) kvs Leaf"

definition load_domain :: "domain_image \<Rightarrow> viommu_domain" where
  "load_domain img =
     domain_preload\<lparr>d_id := img_id img, d_mappings := load_mappings (img_mappings img),
                    d_endpoint_list := img_endpoints img\<rparr>"

definition load_endpoint :: "32 word \<Rightarrow> viommu_endpoint" where
  "load_endpoint i = \<lparr>e_id = i, e_domain = None, e_viommu = False\<rparr>"

definition load_tables :: "VirtIOIOMMU \<Rightarrow> snapshot \<Rightarrow> VirtIOIOMMU" where
  "load_tables s snap =
     s\<lparr>domains := fold (\<lambda>(k, img) t. id_tree_insert t k (load_domain img)) (snap_domains snap) [],
       endpoints := fold (\<lambda>(k, i) t. id_tree_insert t k (load_endpoint i)) (snap_endpoints snap) []\<rparr>"

text \<open>
  The post-load fix-up, from the source. \<open>reconstruct_ep_domain_link\<close> is the callback
  of the traversal of the domain table for one endpoint: the first entry of the domain's
  list that carries the endpoint's id is unlinked, the endpoint is put at the head of the
  list and its domain link is set; the traversal stops there.
\<close>

definition reconstruct_ep_domain_link ::
  "32 word \<Rightarrow> 32 word \<Rightarrow> viommu_domain \<Rightarrow> VirtIOIOMMU \<Rightarrow> bool \<times> VirtIOIOMMU" where
  "reconstruct_ep_domain_link ep_key key d s =
     (case id_tree_lookup (endpoints s) ep_key of
        None \<Rightarrow> (False, s)
      | Some ep \<Rightarrow>
          if e_id ep \<in> set (d_endpoint_list d)
          then (True,
                s\<lparr>domains := id_tree_insert (domains s) key
                     (d\<lparr>d_endpoint_list := ep_key # remove1 (e_id ep) (d_endpoint_list d)\<rparr>),
                  endpoints := id_tree_insert (endpoints s) ep_key (ep\<lparr>e_domain := Some key\<rparr>)\<rparr>)
          else (False, s))"

definition fix_endpoint ::
  "32 word \<Rightarrow> viommu_endpoint \<Rightarrow> VirtIOIOMMU \<Rightarrow> bool \<times> VirtIOIOMMU" where
  "fix_endpoint key ep s =
     (False, foreach_list (reconstruct_ep_domain_link key) (domains s) s)"

definition iommu_post_load :: "VirtIOIOMMU \<Rightarrow> VirtIOIOMMU" where
  "iommu_post_load s = foreach_list fix_endpoint (endpoints s) s"

definition vmstate_load :: "VirtIOIOMMU \<Rightarrow> snapshot \<Rightarrow> VirtIOIOMMU" where
  "vmstate_load s snap = iommu_post_load (load_tables s snap)"

subsection \<open>Device start, command sequences and views of the state\<close>

text \<open>The tables and lists as \<open>virtio_iommu_device_realize\<close> leaves them; the page
  size mask is the one of 4 KiB pages.\<close>

definition virtio_iommu_device_realize :: VirtIOIOMMU where
  "virtio_iommu_device_realize =
     \<lparr>domains = [], endpoints = [], notifiers_list = [], reserved_regions = [],
      acked_features = 0, page_size_mask = 0xFFFFFFFFFFFFF000, probe_size = VIOMMU_PROBE_SIZE\<rparr>"

text \<open>
  A command sequence of the guest. An UNMAP comes with what the keys it frees hold
  afterwards. A step is \<open>None\<close> when the command does not return: its loop never leaves,
  or the process faults.
\<close>

datatype command =
    ATTACH virtio_iommu_req_attach
  | DETACH virtio_iommu_req_detach
  | MAP virtio_iommu_req_map
  | UNMAP virtio_iommu_req_unmap "nat \<Rightarrow> viommu_interval"

fun command_step ::
  "VirtIOIOMMU \<Rightarrow> command \<Rightarrow> (int \<times> VirtIOIOMMU \<times> notification list) option" where
  "command_step s (ATTACH req) =
     (case virtio_iommu_attach s req of Inl f \<Rightarrow> None | Inr r \<Rightarrow> Some r)"
| "command_step s (DETACH req) =
     (case virtio_iommu_detach s req of Inl f \<Rightarrow> None | Inr r \<Rightarrow> Some r)"
| "command_step s (MAP req) = Some (virtio_iommu_map s req)"
| "command_step s (UNMAP req freed) = virtio_iommu_unmap freed s req"

fun run_commands :: "VirtIOIOMMU \<Rightarrow> command list \<Rightarrow> (int list \<times> VirtIOIOMMU) option" where
  "run_commands s [] = Some ([], s)"
| "run_commands s (c # cs) =
     (case command_step s c of
        None \<Rightarrow> None
      | Some (st, s', out) \<Rightarrow>
          (case run_commands s' cs of
             None \<Rightarrow> None
           | Some (sts, s'') \<Rightarrow> Some (st # sts, s'')))"

text \<open>The mappings an endpoint sees: the pairs of its domain's tree, in order.\<close>

definition endpoint_mappings ::
  "VirtIOIOMMU \<Rightarrow> 32 word \<Rightarrow> (viommu_interval \<times> viommu_mapping) list" where
  "endpoint_mappings s sid =
     (case id_tree_lookup (endpoints s) sid of
        None \<Rightarrow> []
      | Some ep \<Rightarrow>
          (case e_domain ep of
             None \<Rightarrow> []
           | Some dkey \<Rightarrow>
               (case id_tree_lookup (domains s) dkey of
                  None \<Rightarrow> []
                | Some domain \<Rightarrow> inorder (d_mappings domain))))"

definition domain_intervals :: "VirtIOIOMMU \<Rightarrow> 32 word \<Rightarrow> viommu_interval list" where
  "domain_intervals s domain_id =
     (case id_tree_lookup (domains s) domain_id of
        None \<Rightarrow> []
      | Some domain \<Rightarrow> map fst (inorder (d_mappings domain)))"

text \<open>Two closed intervals overlap when they share a point; \<open>covers\<close> is the
  containment of an address.\<close>

definition intervals_overlap :: "viommu_interval \<Rightarrow> viommu_interval \<Rightarrow> bool" where
  "intervals_overlap a b =
     (low a \<le> high a \<and> low b \<le> high b \<and> low a \<le> high b \<and> low b \<le> high a)"

definition covers :: "viommu_interval \<Rightarrow> 64 word \<Rightarrow> bool" where
  "covers k a = (low k \<le> a \<and> a \<le> high k)"

fun pairwise_non_overlapping :: "viommu_interval list \<Rightarrow> bool" where
  "pairwise_non_overlapping [] = True"
| "pairwise_non_overlapping (k # ks) =
     (list_all (\<lambda>k'. \<not> intervals_overlap k k') ks \<and> pairwise_non_overlapping ks)"

text \<open>The notifications one notifier receives for a list of mappings.\<close>

definition map_notifications ::
  "IOMMUDevice \<Rightarrow> (viommu_interval \<times> viommu_mapping) list \<Rightarrow> notification list" where
  "map_notifications node kvs =
     map (\<lambda>(k, v). virtio_iommu_notify_map node (low k) (phys_addr v) (high k - low k + 1)) kvs"

definition unmap_notifications ::
  "IOMMUDevice \<Rightarrow> (viommu_interval \<times> viommu_mapping) list \<Rightarrow> notification list" where
  "unmap_notifications node kvs =
     map (\<lambda>(k, v). virtio_iommu_notify_unmap node (low k) (high k - low k + 1)) kvs"

subsection \<open>Well-formed states\<close>

text \<open>
  The data model's invariants, as predicates on the state. An interval is valid when
  \<open>low \<le> high\<close>; a mapping tree is well formed when its keys are valid and, in
  order, each ends below the start of the next. The tables are ascending by key. The links
  are consistent when every domain's list is duplicate free and each of its members is an
  endpoint linked to that domain, and every endpoint linked to a domain is in the list of
  that domain; an endpoint is as \<open>virtio_iommu_get_endpoint\<close> creates it, with its id
  as key and no device pointer.
\<close>

definition interval_before :: "viommu_interval \<Rightarrow> viommu_interval \<Rightarrow> bool" where
  "interval_before a b = (high a < low b)"

definition valid_interval :: "viommu_interval \<Rightarrow> bool" where
  "valid_interval k = (low k \<le> high k)"

definition intervals_wf :: "viommu_interval list \<Rightarrow> bool" where
  "intervals_wf ks = (list_all valid_interval ks \<and> sorted_wrt interval_before ks)"

definition mappings_wf :: "(viommu_interval, viommu_mapping) gtree \<Rightarrow> bool" where
  "mappings_wf t = intervals_wf (map fst (inorder t))"

definition tables_sorted :: "VirtIOIOMMU \<Rightarrow> bool" where
  "tables_sorted s =
     (sorted_wrt (<) (map fst (domains s)) \<and> sorted_wrt (<) (map fst (endpoints s)))"

definition links_consistent :: "VirtIOIOMMU \<Rightarrow> bool" where
  "links_consistent s =
     (list_all (\<lambda>(k, d). d_id d = k \<and> distinct (d_endpoint_list d) \<and>
          list_all (\<lambda>e. case id_tree_lookup (endpoints s) e of
                           None \<Rightarrow> False
                         | Some ep \<Rightarrow> e_domain ep = Some k) (d_endpoint_list d)) (domains s) \<and>
      list_all (\<lambda>(k, ep). e_id ep = k \<and> \<not> e_viommu ep \<and>
          (case e_domain ep of
             None \<Rightarrow> True
           | Some dk \<Rightarrow>
               (case id_tree_lookup (domains s) dk of
                  None \<Rightarrow> False
                | Some d \<Rightarrow> k \<in> set (d_endpoint_list d)))) (endpoints s))"

definition state_inv :: "VirtIOIOMMU \<Rightarrow> bool" where
  "state_inv s =
     (tables_sorted s \<and> links_consistent s \<and>
      list_all (\<lambda>(k, d). mappings_wf (d_mappings d)) (domains s))"

definition domain_view ::
  "viommu_domain \<Rightarrow> 32 word \<times> (viommu_interval \<times> viommu_mapping) list \<times> 32 word set" where
  "domain_view d = (d_id d, inorder (d_mappings d), set (d_endpoint_list d))"

definition state_view ::
  "VirtIOIOMMU \<Rightarrow> (32 word \<times> 32 word \<times> (viommu_interval \<times> viommu_mapping) list \<times> 32 word set) list
     \<times> viommu_endpoint id_tree" where
  "state_view s = (map (\<lambda>(k, d). (k, domain_view d)) (domains s), endpoints s)"

text \<open>The relation the fix-up keeps between a domain entry of the state being rebuilt and
  the entry of the state that was saved; and an endpoint entry as it is loaded.\<close>

definition dom_rel :: "32 word \<times> viommu_domain \<Rightarrow> 32 word \<times> viommu_domain \<Rightarrow> bool" where
  "dom_rel x y =
     (fst x = fst y \<and> d_id (snd x) = d_id (snd y) \<and>
      inorder (d_mappings (snd x)) = inorder (d_mappings (snd y)) \<and>
      set (d_endpoint_list (snd x)) = set (d_endpoint_list (snd y)) \<and>
      distinct (d_endpoint_list (snd x)))"

definition blank_endpoint :: "32 word \<times> viommu_endpoint \<Rightarrow> 32 word \<times> viommu_endpoint" where
  "blank_endpoint x = (fst x, load_endpoint (e_id (snd x)))"

subsection \<open>Example states\<close>

text \<open>The device at bus 1, slot 0, function 0: its stream id is \<open>0x0100\<close>.\<close>

definition dev_0100 :: IOMMUDevice where
  "dev_0100 = \<lparr>bus_num = 1, devfn = 0\<rparr>"

text \<open>A device with one subscribed notifier, endpoint \<open>0x0100\<close> attached to domain 1,
  and the mapping of \<open>[0, 0xFFF]\<close> to \<open>0x10000\<close>, readable and writable.\<close>

definition happy_state :: VirtIOIOMMU where
  "happy_state =
     virtio_iommu_device_realize
       \<lparr>domains := [(1, \<lparr>d_id = 1,
                          d_mappings = Node Leaf \<lparr>low = 0, high = 0xFFF\<rparr>
                                         \<lparr>phys_addr = 0x10000, flags = 3\<rparr> Leaf,
                          d_mappings_ref = 2, d_endpoint_list = [0x100]\<rparr>)],
        endpoints := [(0x100, \<lparr>e_id = 0x100, e_domain = Some 1, e_viommu = False\<rparr>)],
        notifiers_list := [dev_0100]\<rparr>"

text \<open>The same device with the endpoint created and detached, and with no endpoint.\<close>

definition detached_state :: VirtIOIOMMU where
  "detached_state =
     virtio_iommu_device_realize
       \<lparr>endpoints := [(0x100, \<lparr>e_id = 0x100, e_domain = None, e_viommu = False\<rparr>)],
        notifiers_list := [dev_0100]\<rparr>"

text \<open>The state after ATTACH(1, 0x100) on the device as it starts: domain 1 exists,
  with no mapping, and endpoint \<open>0x100\<close> is linked to it.\<close>

definition attached_state :: VirtIOIOMMU where
  "attached_state =
     virtio_iommu_device_realize
       \<lparr>domains := [(1, \<lparr>d_id = 1, d_mappings = Leaf, d_mappings_ref = 2,
                          d_endpoint_list = [0x100]\<rparr>)],
        endpoints := [(0x100, \<lparr>e_id = 0x100, e_domain = Some 1, e_viommu = False\<rparr>)]\<rparr>"

text \<open>A device with one subscribed notifier, endpoint \<open>0x0100\<close> created and not
  attached, and domain 1 with a read-only mapping of \<open>[0x2000, 0x2FFF]\<close> to
  \<open>0x30000\<close>; and the same device after ATTACH(1, 0x100).\<close>

definition read_only_detached_state :: VirtIOIOMMU where
  "read_only_detached_state =
     virtio_iommu_device_realize
       \<lparr>domains := [(1, \<lparr>d_id = 1,
                          d_mappings = Node Leaf \<lparr>low = 0x2000, high = 0x2FFF\<rparr>
                                         \<lparr>phys_addr = 0x30000, flags = 1\<rparr> Leaf,
                          d_mappings_ref = 1, d_endpoint_list = []\<rparr>)],
        endpoints := [(0x100, \<lparr>e_id = 0x100, e_domain = None, e_viommu = False\<rparr>)],
        notifiers_list := [dev_0100]\<rparr>"

definition read_only_state :: VirtIOIOMMU where
  "read_only_state =
     virtio_iommu_device_realize
       \<lparr>domains := [(1, \<lparr>d_id = 1,
                          d_mappings = Node Leaf \<lparr>low = 0x2000, high = 0x2FFF\<rparr>
                                         \<lparr>phys_addr = 0x30000, flags = 1\<rparr> Leaf,
                          d_mappings_ref = 2, d_endpoint_list = [0x100]\<rparr>)],
        endpoints := [(0x100, \<lparr>e_id = 0x100, e_domain = Some 1, e_viommu = False\<rparr>)],
        notifiers_list := [dev_0100]\<rparr>"

definition bypass_state :: VirtIOIOMMU where
  "bypass_state = virtio_iommu_device_realize\<lparr>acked_features := 8\<rparr>"




text \<open>
  States with an interval whose \<open>low\<close> exceeds its \<open>high\<close>, and the command
  sequences that build them from the state the device starts in. MAP stores the bounds of
  the request as they come.
\<close>

definition inverted_state :: VirtIOIOMMU where
  "inverted_state =
     virtio_iommu_device_realize
       \<lparr>domains := [(1, \<lparr>d_id = 1,
                          d_mappings = Node Leaf \<lparr>low = 10, high = 5\<rparr>
                                         \<lparr>phys_addr = 0, flags = 3\<rparr> Leaf,
                          d_mappings_ref = 2, d_endpoint_list = [1]\<rparr>)],
        endpoints := [(1, \<lparr>e_id = 1, e_domain = Some 1, e_viommu = False\<rparr>)]\<rparr>"

definition inverted_commands :: "command list" where
  "inverted_commands =
     [ATTACH \<lparr>attach_domain = 1, attach_endpoint = 1\<rparr>,
      MAP \<lparr>map_domain = 1, map_virt_start = 10, map_virt_end = 5, map_phys_start = 0,
           map_flags = 3\<rparr>]"

definition overlap_commands :: "command list" where
  "overlap_commands =
     [ATTACH \<lparr>attach_domain = 1, attach_endpoint = 1\<rparr>,
      MAP \<lparr>map_domain = 1, map_virt_start = 10, map_virt_end = 5, map_phys_start = 0,
           map_flags = 3\<rparr>,
      MAP \<lparr>map_domain = 1, map_virt_start = 0, map_virt_end = 8, map_phys_start = 0x1000,
           map_flags = 3\<rparr>,
      MAP \<lparr>map_domain = 1, map_virt_start = 6, map_virt_end = 12, map_phys_start = 0x2000,
           map_flags = 3\<rparr>]"

definition overlap_prone_state :: VirtIOIOMMU where
  "overlap_prone_state =
     virtio_iommu_device_realize
       \<lparr>domains := [(1, \<lparr>d_id = 1,
                          d_mappings =
                            Node (Node Leaf \<lparr>low = 0, high = 8\<rparr>
                                    \<lparr>phys_addr = 0x1000, flags = 3\<rparr> Leaf)
                                 \<lparr>low = 10, high = 5\<rparr> \<lparr>phys_addr = 0, flags = 3\<rparr> Leaf,
                          d_mappings_ref = 2, d_endpoint_list = [1]\<rparr>)],
        endpoints := [(1, \<lparr>e_id = 1, e_domain = Some 1, e_viommu = False\<rparr>)]\<rparr>"

definition overlap_state :: VirtIOIOMMU where
  "overlap_state =
     virtio_iommu_device_realize
       \<lparr>domains := [(1, \<lparr>d_id = 1,
                          d_mappings =
                            Node (Node Leaf \<lparr>low = 0, high = 8\<rparr>
                                    \<lparr>phys_addr = 0x1000, flags = 3\<rparr> Leaf)
                                 \<lparr>low = 10, high = 5\<rparr> \<lparr>phys_addr = 0, flags = 3\<rparr>
                                 (Node Leaf \<lparr>low = 6, high = 12\<rparr>
                                    \<lparr>phys_addr = 0x2000, flags = 3\<rparr> Leaf),
                          d_mappings_ref = 2, d_endpoint_list = [1]\<rparr>)],
        endpoints := [(1, \<lparr>e_id = 1, e_domain = Some 1, e_viommu = False\<rparr>)]\<rparr>"

text \<open>A mapping that starts right above the translated address, and a mapping that
  ends at the top of the address space.\<close>

definition below_state :: VirtIOIOMMU where
  "below_state =
     virtio_iommu_device_realize
       \<lparr>domains := [(1, \<lparr>d_id = 1,
                          d_mappings = Node Leaf \<lparr>low = 0x1000, high = 0x1FFF\<rparr>
                                         \<lparr>phys_addr = 0x10000, flags = 3\<rparr> Leaf,
                          d_mappings_ref = 2, d_endpoint_list = [0x100]\<rparr>)],
        endpoints := [(0x100, \<lparr>e_id = 0x100, e_domain = Some 1, e_viommu = False\<rparr>)]\<rparr>"

definition top_state :: VirtIOIOMMU where
  "top_state =
     virtio_iommu_device_realize
       \<lparr>domains := [(1, \<lparr>d_id = 1,
                          d_mappings = Node Leaf \<lparr>low = 0xFFFFFFFFFFFFF000, high = 0xFFFFFFFFFFFFFFFF\<rparr>
                                         \<lparr>phys_addr = 0x10000, flags = 3\<rparr> Leaf,
                          d_mappings_ref = 2, d_endpoint_list = [0x100]\<rparr>)],
        endpoints := [(0x100, \<lparr>e_id = 0x100, e_domain = Some 1, e_viommu = False\<rparr>)]\<rparr>"

section \<open>Properties\<close>

subsection \<open>Tables, traversals and fan-out\<close>

lemmas status_defs =
  VIRTIO_IOMMU_S_OK_def VIRTIO_IOMMU_S_IOERR_def VIRTIO_IOMMU_S_UNSUPP_def
  VIRTIO_IOMMU_S_DEVERR_def VIRTIO_IOMMU_S_INVAL_def VIRTIO_IOMMU_S_RANGE_def
  VIRTIO_IOMMU_S_NOENT_def

lemmas perm_defs = IOMMU_NONE_def IOMMU_RO_def IOMMU_WO_def IOMMU_RW_def

lemmas example_defs =
  virtio_iommu_device_realize_def happy_state_def detached_state_def bypass_state_def
  attached_state_def read_only_state_def read_only_detached_state_def
  dev_0100_def virtio_iommu_get_sid_def id_tree_lookup_def


lemmas eval_defs =
  virtio_iommu_attach_def virtio_iommu_map_def virtio_iommu_get_endpoint_def
  virtio_iommu_get_domain_def g_tree_ref_def g_tree_lookup_def
  interval_cmp_def attach_replay_def domain_fanout_def Let_def

lemma id_tree_lookup_insert:
  "id_tree_lookup (id_tree_insert t k v) k' = (if k' = k then Some v else id_tree_lookup t k')"
  by (induction t) (auto simp: id_tree_lookup_def)



lemma foreach_mapping_map:
  "foreach_list (virtio_iommu_mapping_map node) kvs out = out @ map_notifications node kvs"
  by (induction kvs arbitrary: out)
     (auto simp: virtio_iommu_mapping_map_def map_notifications_def)

lemma foreach_mapping_unmap:
  "foreach_list (virtio_iommu_mapping_unmap node) kvs out = out @ unmap_notifications node kvs"
  by (induction kvs arbitrary: out)
     (auto simp: virtio_iommu_mapping_unmap_def unmap_notifications_def)

lemma foreach_remap:
  "foreach_list (virtio_iommu_remap node) kvs out =
     out @ concat (map (\<lambda>(k, v). [virtio_iommu_notify_unmap node (low k) (high k - low k + 1),
         virtio_iommu_notify_map node (low k) (phys_addr v) (high k - low k + 1)]) kvs)"
  by (induction kvs arbitrary: out) (auto simp: virtio_iommu_remap_def)

lemma fold_cond_append:
  "fold (\<lambda>x out. if P x then out @ f x else out) xs acc =
     acc @ concat (map (\<lambda>x. if P x then f x else []) xs)"
  by (induction xs arbitrary: acc) auto

lemma attach_replay_eq:
  "attach_replay nodes ep t =
     concat (map (\<lambda>node. if ep = ucast (virtio_iommu_get_sid node)
                          then map_notifications node (inorder t) else []) nodes)"
  unfolding attach_replay_def g_tree_foreach_def foreach_mapping_map
  by (rule fold_cond_append [where acc = "[]", simplified])

lemma fold_inner_fanout:
  "fold (\<lambda>ep out. if ep = x then out @ [n] else out) eps acc =
     acc @ replicate (length (filter (\<lambda>ep. ep = x) eps)) n"
  by (induction eps arbitrary: acc) (auto simp: replicate_append_same)

lemma domain_fanout_eq:
  "domain_fanout nodes eps notify =
     concat (map (\<lambda>node. replicate
        (length (filter (\<lambda>ep. ep = ucast (virtio_iommu_get_sid node)) eps)) (notify node)) nodes)"
proof -
  have "fold (\<lambda>node out.
             fold (\<lambda>ep out. if ep = ucast (virtio_iommu_get_sid node)
                             then out @ [notify node] else out) eps out) nodes acc =
        acc @ concat (map (\<lambda>node. replicate
        (length (filter (\<lambda>ep. ep = ucast (virtio_iommu_get_sid node)) eps)) (notify node)) nodes)"
    for acc
    by (induction nodes arbitrary: acc) (auto simp: fold_inner_fanout)
  then show ?thesis unfolding domain_fanout_def by simp
qed

lemma perm_notify_map: "perm (snd (virtio_iommu_notify_map mr i p sz)) = IOMMU_RW"
  by (simp add: virtio_iommu_notify_map_def)

lemma perm_notify_unmap: "perm (snd (virtio_iommu_notify_unmap mr i sz)) = IOMMU_NONE"
  by (simp add: virtio_iommu_notify_unmap_def)

lemma map_notifications_perm:
  "n \<in> set (map_notifications node kvs) \<Longrightarrow> perm (snd n) = IOMMU_RW"
  by (auto simp: map_notifications_def perm_notify_map)

lemma unmap_notifications_perm:
  "n \<in> set (unmap_notifications node kvs) \<Longrightarrow> perm (snd n) = IOMMU_NONE"
  by (auto simp: unmap_notifications_def perm_notify_unmap)

lemma attach_replay_perm: "n \<in> set (attach_replay nodes ep t) \<Longrightarrow> perm (snd n) = IOMMU_RW"
  by (auto simp: attach_replay_eq map_notifications_perm split: if_splits)

lemma map_out_perm:
  "n \<in> set (snd (snd (virtio_iommu_map s req))) \<Longrightarrow> perm (snd n) = IOMMU_RW"
  by (auto simp: virtio_iommu_map_def Let_def domain_fanout_eq perm_notify_map
           split: option.splits if_splits)

lemma replay_perm:
  "n \<in> set (virtio_iommu_replay s sdev) \<Longrightarrow> perm (snd n) \<noteq> IOMMU_NONE \<Longrightarrow>
   perm (snd n) = IOMMU_RW"
  by (auto simp: virtio_iommu_replay_def Let_def g_tree_foreach_def foreach_remap
        virtio_iommu_notify_unmap_def perm_notify_map split: option.splits)

lemma map_out_flags_indep:
  "snd (snd (virtio_iommu_map s (req\<lparr>map_flags := f\<rparr>))) = snd (snd (virtio_iommu_map s req))"
  by (auto simp: virtio_iommu_map_def Let_def split: option.splits)

lemma detach_ep_notifiers:
  "virtio_iommu_detach_endpoint_from_domain s k = Inr (s', out) \<Longrightarrow>
   notifiers_list s' = notifiers_list s"
  by (auto simp: virtio_iommu_detach_endpoint_from_domain_def Let_def
        split: option.splits if_splits)

lemma detach_ep_out:
  "virtio_iommu_detach_endpoint_from_domain s k = Inr (s', out) \<Longrightarrow>
   id_tree_lookup (endpoints s) k = Some ep \<Longrightarrow> e_domain ep = Some dk \<Longrightarrow>
   id_tree_lookup (domains s) dk = Some d \<Longrightarrow>
   out = concat (map (\<lambda>node. if e_id ep = ucast (virtio_iommu_get_sid node)
                          then unmap_notifications node (inorder (d_mappings d)) else [])
                 (notifiers_list s))"
  unfolding virtio_iommu_detach_endpoint_from_domain_def Let_def g_tree_foreach_def
        foreach_mapping_unmap
  by (auto simp: fold_cond_append [where acc = "[]", simplified] split: if_splits)

lemma detach_ep_out_perm:
  assumes "virtio_iommu_detach_endpoint_from_domain s k = Inr (s', out)" "n \<in> set out"
  shows "perm (snd n) = IOMMU_NONE"
proof (cases "\<exists>ep dk d. id_tree_lookup (endpoints s) k = Some ep \<and> e_domain ep = Some dk \<and>
               id_tree_lookup (domains s) dk = Some d")
  case True
  then obtain ep dk d where "id_tree_lookup (endpoints s) k = Some ep" "e_domain ep = Some dk"
      "id_tree_lookup (domains s) dk = Some d" by blast
  from detach_ep_out [OF assms(1) this] assms(2) show ?thesis
    by (auto simp: unmap_notifications_perm split: if_splits)
next
  case False
  with assms(1) have "out = []"
    by (auto simp: virtio_iommu_detach_endpoint_from_domain_def Let_def
          split: option.splits if_splits)
  with assms(2) show ?thesis by simp
qed

subsection \<open>Notifications carry read-write permission\<close>

lemma attach_out_perm:
  assumes "virtio_iommu_attach s req = Inr (st, s', out)" "n \<in> set out"
    "perm (snd n) \<noteq> IOMMU_NONE"
  shows "perm (snd n) = IOMMU_RW"
proof -
  obtain s1 ep where ge: "virtio_iommu_get_endpoint s (attach_endpoint req) = (s1, ep)"
    by (cases "virtio_iommu_get_endpoint s (attach_endpoint req)")
  have "\<exists>out1 nodes e t. out = out1 @ attach_replay nodes e t \<and>
          (\<forall>m \<in> set out1. perm (snd m) = IOMMU_NONE)"
  proof (cases "e_domain ep")
    case None
    with assms(1) ge have "\<exists>nodes e t. out = [] @ attach_replay nodes e t"
      by (auto simp: virtio_iommu_attach_def Let_def split: prod.splits)
    then show ?thesis by fastforce
  next
    case (Some dk)
    show ?thesis
    proof (cases "virtio_iommu_detach_endpoint_from_domain s1 (attach_endpoint req)")
      case (Inl f)
      with assms(1) ge Some show ?thesis by (simp add: virtio_iommu_attach_def Let_def)
    next
      case (Inr p)
      obtain s2 out1 where p: "p = (s2, out1)" by (cases p)
      from assms(1) ge Some Inr p have "\<exists>nodes e t. out = out1 @ attach_replay nodes e t"
        by (auto simp: virtio_iommu_attach_def Let_def split: prod.splits)
      moreover have "\<forall>m \<in> set out1. perm (snd m) = IOMMU_NONE"
        using Inr p by (auto dest: detach_ep_out_perm)
      ultimately show ?thesis by blast
    qed
  qed
  then obtain out1 nodes e t where out: "out = out1 @ attach_replay nodes e t"
    and none: "\<forall>m \<in> set out1. perm (snd m) = IOMMU_NONE" by blast
  with assms(2,3) show ?thesis by (auto simp: attach_replay_perm)
qed

lemma translate_mapped_path:
  assumes "id_tree_lookup (endpoints s) (ucast (virtio_iommu_get_sid sdev)) = Some ep"
    and "resv_scan (reserved_regions s) addr = None"
    and "e_domain ep = Some dk"
    and "id_tree_lookup (domains s) dk = Some d"
    and "g_tree_lookup_extended interval_cmp (d_mappings d) \<lparr>low = addr, high = addr + 1\<rparr> =
           Some (k, m)"
  shows "perm (fst (virtio_iommu_translate s sdev addr flag)) =
           (if (flag AND IOMMU_RO \<noteq> 0 \<and> flags m AND VIRTIO_IOMMU_MAP_F_READ = 0) \<or>
               (flag AND IOMMU_WO \<noteq> 0 \<and> flags m AND VIRTIO_IOMMU_MAP_F_WRITE = 0)
            then IOMMU_NONE else flag)"
  using assms
  by (simp add: virtio_iommu_translate_def Let_def VIRTIO_IOMMU_FAULT_F_READ_def
        VIRTIO_IOMMU_FAULT_F_WRITE_def)

text \<open>
  C10. Every MAP notification carries read-write permission, whatever the flags of the
  mapping: the notification \<open>virtio_iommu_notify_map\<close> builds has \<open>perm = IOMMU_RW\<close>;
  every notification a MAP command sends has it, and the notifications do not depend on
  the request's flags; every notification of the replay on ATTACH has it; among the
  notifications of an ATTACH command and of the replay operation, all those that are not
  UNMAP notifications (\<open>perm = IOMMU_NONE\<close>) have it. The flags of a mapping are
  enforced by the translation: when the lookup of \<open>virtio_iommu_translate\<close> finds a
  mapping, a read access to a mapping without the READ flag and a write access to a
  mapping without the WRITE flag are denied, and every other access is granted.
\<close>

theorem map_notifications_carry_rw:
  "perm (snd (virtio_iommu_notify_map mr i p sz)) = IOMMU_RW \<and>
   (\<forall>n \<in> set (snd (snd (virtio_iommu_map s req))). perm (snd n) = IOMMU_RW) \<and>
   snd (snd (virtio_iommu_map s (req\<lparr>map_flags := f\<rparr>))) = snd (snd (virtio_iommu_map s req)) \<and>
   (\<forall>n \<in> set (attach_replay nodes ep t). perm (snd n) = IOMMU_RW) \<and>
   (\<forall>st s' out. virtio_iommu_attach s areq = Inr (st, s', out) \<longrightarrow>
      (\<forall>n \<in> set out. perm (snd n) \<noteq> IOMMU_NONE \<longrightarrow> perm (snd n) = IOMMU_RW)) \<and>
   (\<forall>n \<in> set (virtio_iommu_replay s sdev).
        perm (snd n) \<noteq> IOMMU_NONE \<longrightarrow> perm (snd n) = IOMMU_RW) \<and>
   (\<forall>e dk d k m.
      id_tree_lookup (endpoints s) (ucast (virtio_iommu_get_sid sdev)) = Some e \<and>
      resv_scan (reserved_regions s) addr = None \<and> e_domain e = Some dk \<and>
      id_tree_lookup (domains s) dk = Some d \<and>
      g_tree_lookup_extended interval_cmp (d_mappings d) \<lparr>low = addr, high = addr + 1\<rparr> =
        Some (k, m) \<longrightarrow>
      perm (fst (virtio_iommu_translate s sdev addr flag)) =
        (if (flag AND IOMMU_RO \<noteq> 0 \<and> flags m AND VIRTIO_IOMMU_MAP_F_READ = 0) \<or>
            (flag AND IOMMU_WO \<noteq> 0 \<and> flags m AND VIRTIO_IOMMU_MAP_F_WRITE = 0)
         then IOMMU_NONE else flag))"
proof (intro conjI ballI impI allI)
  fix st s' out n
  assume "virtio_iommu_attach s areq = Inr (st, s', out)" "n \<in> set out"
    "perm (snd n) \<noteq> IOMMU_NONE"
  then show "perm (snd n) = IOMMU_RW" by (rule attach_out_perm)
next
  fix n assume "n \<in> set (virtio_iommu_replay s sdev)" "perm (snd n) \<noteq> IOMMU_NONE"
  then show "perm (snd n) = IOMMU_RW" by (rule replay_perm)
next
  fix e dk d k m
  assume "id_tree_lookup (endpoints s) (ucast (virtio_iommu_get_sid sdev)) = Some e \<and>
      resv_scan (reserved_regions s) addr = None \<and> e_domain e = Some dk \<and>
      id_tree_lookup (domains s) dk = Some d \<and>
      g_tree_lookup_extended interval_cmp (d_mappings d) \<lparr>low = addr, high = addr + 1\<rparr> =
        Some (k, m)"
  then show "perm (fst (virtio_iommu_translate s sdev addr flag)) =
        (if (flag AND IOMMU_RO \<noteq> 0 \<and> flags m AND VIRTIO_IOMMU_MAP_F_READ = 0) \<or>
            (flag AND IOMMU_WO \<noteq> 0 \<and> flags m AND VIRTIO_IOMMU_MAP_F_WRITE = 0)
         then IOMMU_NONE else flag)"
    by (elim conjE) (rule translate_mapped_path, assumption+)
qed (simp_all add: perm_notify_map map_out_perm map_out_flags_indep attach_replay_perm)

theorem map_notifications_carry_rw_witness:
  "snd (snd (virtio_iommu_map read_only_state
        \<lparr>map_domain = 1, map_virt_start = 0x4000, map_virt_end = 0x4FFF,
         map_phys_start = 0x50000, map_flags = VIRTIO_IOMMU_MAP_F_READ\<rparr>)) =
     [(dev_0100, \<lparr>iova = 0x4000, translated_addr = 0x50000, addr_mask = 0xFFF,
                  perm = IOMMU_RW\<rparr>)] \<and>
   virtio_iommu_attach read_only_detached_state \<lparr>attach_domain = 1, attach_endpoint = 0x100\<rparr> =
     Inr (VIRTIO_IOMMU_S_OK, read_only_state,
          [(dev_0100, \<lparr>iova = 0x2000, translated_addr = 0x30000, addr_mask = 0xFFF,
                       perm = IOMMU_RW\<rparr>)]) \<and>
   virtio_iommu_replay read_only_state dev_0100 =
     [(dev_0100, \<lparr>iova = 0x2000, translated_addr = 0, addr_mask = 0xFFF, perm = IOMMU_NONE\<rparr>),
      (dev_0100, \<lparr>iova = 0x2000, translated_addr = 0x30000, addr_mask = 0xFFF,
                  perm = IOMMU_RW\<rparr>)] \<and>
   perm (fst (virtio_iommu_translate read_only_state dev_0100 0x2ABC IOMMU_WO)) = IOMMU_NONE \<and>
   perm (fst (virtio_iommu_translate read_only_state dev_0100 0x2ABC IOMMU_RW)) = IOMMU_NONE \<and>
   perm (fst (virtio_iommu_translate read_only_state dev_0100 0x2ABC IOMMU_RO)) = IOMMU_RO \<and>
   translated_addr (fst (virtio_iommu_translate read_only_state dev_0100 0x2ABC IOMMU_RO)) =
     0x30ABC"
  using map_notifications_carry_rw [where s = read_only_state and sdev = dev_0100
      and req = "\<lparr>map_domain = 1, map_virt_start = 0x4000, map_virt_end = 0x4FFF,
         map_phys_start = 0x50000, map_flags = VIRTIO_IOMMU_MAP_F_READ\<rparr>"
      and areq = "\<lparr>attach_domain = 1, attach_endpoint = 0x100\<rparr>"
      and nodes = "[dev_0100]" and ep = "0x100" and t = Leaf and f = 0
      and mr = dev_0100 and i = 0 and p = 0 and sz = 0 and addr = "0x2ABC"
      and flag = IOMMU_WO]
  by (simp add: example_defs virtio_iommu_map_def virtio_iommu_attach_def
        virtio_iommu_replay_def virtio_iommu_get_endpoint_def virtio_iommu_get_domain_def
        virtio_iommu_translate_def
        g_tree_ref_def g_tree_unref_def
        g_tree_lookup_def interval_cmp_def domain_fanout_def attach_replay_def
        g_tree_foreach_def virtio_iommu_mapping_map_def virtio_iommu_mapping_unmap_def
        virtio_iommu_remap_def virtio_iommu_notify_map_def virtio_iommu_notify_unmap_def
        perm_defs status_defs VIRTIO_IOMMU_MAP_F_READ_def VIRTIO_IOMMU_MAP_F_WRITE_def
        VIRTIO_IOMMU_FAULT_F_READ_def VIRTIO_IOMMU_FAULT_F_WRITE_def
        Let_def)

subsection \<open>Translation\<close>




subsection \<open>The lookup key of the translation\<close>

text \<open>
  C5. The lookup with the key \<open>[iova, iova + 1]\<close> is not the containment of
  \<open>iova\<close>. With the single interval \<open>[0x1000, 0x1FFF]\<close> stored, the key for
  \<open>iova = 0xFFF\<close> finds it, although the interval does not cover \<open>0xFFF\<close>, and
  the translation grants the access at \<open>0xFFF - 0x1000 + 0x10000 = 0xFFFF\<close>. With an
  interval that ends at the top of the address space, the key for the last address wraps
  to \<open>[0xFFFFFFFFFFFFFFFF, 0]\<close> and finds nothing, although the interval covers the
  address, and the translation denies the access.
\<close>

theorem lookup_point_off_by_one:
  "g_tree_lookup_extended interval_cmp
      (Node Leaf \<lparr>low = 0x1000, high = 0x1FFF\<rparr> \<lparr>phys_addr = 0x10000, flags = 3\<rparr> Leaf)
      \<lparr>low = 0xFFF, high = 0xFFF + 1\<rparr> =
     Some (\<lparr>low = 0x1000, high = 0x1FFF\<rparr>, \<lparr>phys_addr = 0x10000, flags = 3\<rparr>) \<and>
   \<not> covers \<lparr>low = 0x1000, high = 0x1FFF\<rparr> 0xFFF \<and>
   fst (virtio_iommu_translate below_state dev_0100 0xFFF IOMMU_RO) =
     \<lparr>iova = 0xFFF, translated_addr = 0xFFFF,
      addr_mask = addr_mask (fst (virtio_iommu_translate below_state dev_0100 0xFFF IOMMU_RO)),
      perm = IOMMU_RO\<rparr> \<and>
   g_tree_lookup_extended interval_cmp
      (Node Leaf \<lparr>low = 0xFFFFFFFFFFFFF000, high = 0xFFFFFFFFFFFFFFFF\<rparr>
         \<lparr>phys_addr = 0x10000, flags = 3\<rparr> Leaf)
      \<lparr>low = 0xFFFFFFFFFFFFFFFF, high = 0xFFFFFFFFFFFFFFFF + 1\<rparr> = None \<and>
   covers \<lparr>low = 0xFFFFFFFFFFFFF000, high = 0xFFFFFFFFFFFFFFFF\<rparr> 0xFFFFFFFFFFFFFFFF \<and>
   perm (fst (virtio_iommu_translate top_state dev_0100 0xFFFFFFFFFFFFFFFF IOMMU_RO)) = IOMMU_NONE"
  by (simp add: interval_cmp_def covers_def below_state_def top_state_def example_defs
        virtio_iommu_translate_def perm_defs VIRTIO_IOMMU_MAP_F_READ_def
        VIRTIO_IOMMU_MAP_F_WRITE_def Let_def)

subsection \<open>The command queue\<close>




subsection \<open>Intervals with \<open>low > high\<close>\<close>

lemma run_inverted_commands:
  "run_commands virtio_iommu_device_realize inverted_commands =
     Some ([VIRTIO_IOMMU_S_OK, VIRTIO_IOMMU_S_OK], inverted_state)"
  by (simp add: inverted_commands_def inverted_state_def example_defs eval_defs)

text \<open>
  C2. MAP does not compare the bounds of the request. From the state the device starts
  in, ATTACH(1, 1), MAP(1, [10, 5]), MAP(1, [0, 8]) and MAP(1, [6, 12]) all return OK: the
  search for \<open>[6, 12]\<close> goes right at the root \<open>[10, 5]\<close> and never meets
  \<open>[0, 8]\<close> in the left subtree. The table of domain 1 then holds \<open>[0, 8]\<close> and
  \<open>[6, 12]\<close>, which share the points 6 to 8.
\<close>

theorem inverted_map_breaks_non_overlap:
  "map_option (\<lambda>(sts, s). (sts, domain_intervals s 1))
     (run_commands virtio_iommu_device_realize overlap_commands) =
     Some ([VIRTIO_IOMMU_S_OK, VIRTIO_IOMMU_S_OK, VIRTIO_IOMMU_S_OK, VIRTIO_IOMMU_S_OK],
           [\<lparr>low = 0, high = 8\<rparr>, \<lparr>low = 10, high = 5\<rparr>, \<lparr>low = 6, high = 12\<rparr>]) \<and>
   intervals_overlap \<lparr>low = 0, high = 8\<rparr> \<lparr>low = 6, high = 12\<rparr> \<and>
   \<not> pairwise_non_overlapping [\<lparr>low = 0, high = 8\<rparr>, \<lparr>low = 10, high = 5\<rparr>, \<lparr>low = 6, high = 12\<rparr>]"
  by (simp add: overlap_commands_def example_defs eval_defs domain_intervals_def
        intervals_overlap_def)

text \<open>
  C4. In the state that ATTACH(1, 1), MAP(1, [10, 5]) and MAP(1, [0, 8]) build,
  MAP(1, [6, 12]) returns OK and inserts the interval, although it overlaps the stored
  interval \<open>[0, 8]\<close>.
\<close>

theorem map_accepts_overlapping_interval:
  "run_commands virtio_iommu_device_realize (take 3 overlap_commands) =
     Some ([VIRTIO_IOMMU_S_OK, VIRTIO_IOMMU_S_OK, VIRTIO_IOMMU_S_OK], overlap_prone_state) \<and>
   domain_intervals overlap_prone_state 1 = [\<lparr>low = 0, high = 8\<rparr>, \<lparr>low = 10, high = 5\<rparr>] \<and>
   intervals_overlap \<lparr>low = 6, high = 12\<rparr> \<lparr>low = 0, high = 8\<rparr> \<and>
   fst (virtio_iommu_map overlap_prone_state
          \<lparr>map_domain = 1, map_virt_start = 6, map_virt_end = 12, map_phys_start = 0x2000,
           map_flags = 3\<rparr>) = VIRTIO_IOMMU_S_OK \<and>
   domain_intervals (fst (snd (virtio_iommu_map overlap_prone_state
          \<lparr>map_domain = 1, map_virt_start = 6, map_virt_end = 12, map_phys_start = 0x2000,
           map_flags = 3\<rparr>))) 1 =
     [\<lparr>low = 0, high = 8\<rparr>, \<lparr>low = 10, high = 5\<rparr>, \<lparr>low = 6, high = 12\<rparr>]"
  by (simp add: overlap_commands_def overlap_prone_state_def example_defs eval_defs
        domain_intervals_def intervals_overlap_def)

text \<open>The loop of UNMAP with the query \<open>[0, 20]\<close> on the tree that holds
  \<open>[10, 5]\<close> alone: the lookup finds the key, the query contains it,
  \<open>g_tree_remove\<close> searches for the key, compares it with itself, gets \<open>-1\<close>,
  goes left and removes nothing; the next turn starts from the same tree.\<close>

lemma unmap_loop_inverted_aux:
  assumes "unmap_loop freed n nodes interval domain out = Some y"
  shows "\<not> (interval = \<lparr>low = 0, high = 20\<rparr> \<and>
      d_mappings domain = Node Leaf \<lparr>low = 10, high = 5\<rparr> \<lparr>phys_addr = 0, flags = 3\<rparr> Leaf)"
proof (rule unmap_loop.raw_induct [where P = "\<lambda>freed n nodes interval domain out y.
      \<not> (interval = \<lparr>low = 0, high = 20\<rparr> \<and>
      d_mappings domain = Node Leaf \<lparr>low = 10, high = 5\<rparr> \<lparr>phys_addr = 0, flags = 3\<rparr> Leaf)",
      OF _ assms])
  fix ul :: "(nat \<Rightarrow> viommu_interval) \<Rightarrow> nat \<Rightarrow> IOMMUDevice list \<Rightarrow> viommu_interval
     \<Rightarrow> viommu_domain \<Rightarrow> notification list
     \<Rightarrow> (int \<times> viommu_domain \<times> notification list) option"
  fix freed n nodes interval domain out y
  assume IH: "\<And>freed n nodes interval domain out y.
      ul freed n nodes interval domain out = Some y \<Longrightarrow>
      \<not> (interval = \<lparr>low = 0, high = 20\<rparr> \<and>
      d_mappings domain = Node Leaf \<lparr>low = 10, high = 5\<rparr> \<lparr>phys_addr = 0, flags = 3\<rparr> Leaf)"
  assume body: "(case g_tree_lookup_extended interval_cmp (d_mappings domain) interval of
      None \<Rightarrow> Some (VIRTIO_IOMMU_S_OK, domain, out)
      | Some (iter_key, iter_val) \<Rightarrow>
          if low interval \<le> low iter_key \<and> high iter_key \<le> high interval
          then case virtio_iommu_remove_mapping (freed n) nodes domain iter_key of
               (domain', out') \<Rightarrow> ul freed (Suc n) nodes interval domain' (out @ out')
          else Some (VIRTIO_IOMMU_S_RANGE, domain, out)) = Some y"
  show "\<not> (interval = \<lparr>low = 0, high = 20\<rparr> \<and>
      d_mappings domain = Node Leaf \<lparr>low = 10, high = 5\<rparr> \<lparr>phys_addr = 0, flags = 3\<rparr> Leaf)"
  proof
    assume a: "interval = \<lparr>low = 0, high = 20\<rparr> \<and>
      d_mappings domain = Node Leaf \<lparr>low = 10, high = 5\<rparr> \<lparr>phys_addr = 0, flags = 3\<rparr> Leaf"
    with body have "ul freed (Suc n) nodes interval
        (fst (virtio_iommu_remove_mapping (freed n) nodes domain \<lparr>low = 10, high = 5\<rparr>))
        (out @ snd (virtio_iommu_remove_mapping (freed n) nodes domain \<lparr>low = 10, high = 5\<rparr>))
          = Some y"
      by (simp add: interval_cmp_def split: prod.splits)
    from IH [OF this] a show False
      by (simp add: virtio_iommu_remove_mapping_def interval_cmp_def Let_def)
  qed
qed

text \<open>
  C3. In the state that ATTACH(1, 1) and MAP(1, [10, 5]) build, UNMAP(1, [0, 20]) never
  returns: the key found is contained in the query and is not removed.
\<close>

theorem unmap_inverted_never_returns:
  "run_commands virtio_iommu_device_realize inverted_commands =
     Some ([VIRTIO_IOMMU_S_OK, VIRTIO_IOMMU_S_OK], inverted_state) \<and>
   virtio_iommu_unmap freed inverted_state
     \<lparr>unmap_domain = 1, unmap_virt_start = 0, unmap_virt_end = 20\<rparr> = None"
proof -
  have "unmap_loop freed 0 [] \<lparr>low = 0, high = 20\<rparr>
          \<lparr>d_id = 1, d_mappings = Node Leaf \<lparr>low = 10, high = 5\<rparr> \<lparr>phys_addr = 0, flags = 3\<rparr> Leaf,
           d_mappings_ref = 2, d_endpoint_list = [1]\<rparr> [] = None"
  proof (cases "unmap_loop freed 0 [] \<lparr>low = 0, high = 20\<rparr>
          \<lparr>d_id = 1, d_mappings = Node Leaf \<lparr>low = 10, high = 5\<rparr> \<lparr>phys_addr = 0, flags = 3\<rparr> Leaf,
           d_mappings_ref = 2, d_endpoint_list = [1]\<rparr> []")
    case (Some y)
    from unmap_loop_inverted_aux [OF this] show ?thesis by simp
  qed simp
  then have "virtio_iommu_unmap freed inverted_state
     \<lparr>unmap_domain = 1, unmap_virt_start = 0, unmap_virt_end = 20\<rparr> = None"
    by (simp add: virtio_iommu_unmap_def inverted_state_def example_defs)
  with run_inverted_commands show ?thesis by simp
qed

subsection \<open>The back pointer of an endpoint\<close>

text \<open>
  C6. DETACH of an attached endpoint does not return. From the state the device starts
  in, ATTACH(1, 0x100) returns OK and links the endpoint to domain 1. DETACH(1, 0x100)
  then finds the endpoint and its domain and calls
  \<open>virtio_iommu_detach_endpoint_from_domain\<close>, which reads the device from the
  endpoint's \<open>viommu\<close> member; nothing ever stores the device there, the member holds the
  NULL that \<open>g_malloc0\<close> left, and walking the notifier list through it is the
  dereference of a NULL pointer.
\<close>

theorem detach_attached_endpoint_faults:
  "run_commands virtio_iommu_device_realize
     [ATTACH \<lparr>attach_domain = 1, attach_endpoint = 0x100\<rparr>] =
     Some ([VIRTIO_IOMMU_S_OK], attached_state) \<and>
   virtio_iommu_detach attached_state \<lparr>detach_domain = 1, detach_endpoint = 0x100\<rparr> =
     Inl Null_dereference \<and>
   run_commands virtio_iommu_device_realize
     [ATTACH \<lparr>attach_domain = 1, attach_endpoint = 0x100\<rparr>,
      DETACH \<lparr>detach_domain = 1, detach_endpoint = 0x100\<rparr>] = None"
  by (simp add: attached_state_def example_defs eval_defs virtio_iommu_detach_def
        virtio_iommu_detach_endpoint_from_domain_def)

text \<open>
  C9. ATTACH of an endpoint that is already attached does not return. From the state the
  device starts in, ATTACH(1, 0x100) returns OK. A second ATTACH of the same endpoint, to
  domain 2 or again to domain 1, finds the endpoint linked to a domain and calls
  \<open>virtio_iommu_detach_endpoint_from_domain\<close> first, which dereferences the NULL
  \<open>viommu\<close> member of the endpoint.
\<close>

theorem attach_attached_endpoint_faults:
  "run_commands virtio_iommu_device_realize
     [ATTACH \<lparr>attach_domain = 1, attach_endpoint = 0x100\<rparr>] =
     Some ([VIRTIO_IOMMU_S_OK], attached_state) \<and>
   virtio_iommu_attach attached_state \<lparr>attach_domain = 2, attach_endpoint = 0x100\<rparr> =
     Inl Null_dereference \<and>
   virtio_iommu_attach attached_state \<lparr>attach_domain = 1, attach_endpoint = 0x100\<rparr> =
     Inl Null_dereference \<and>
   run_commands virtio_iommu_device_realize
     [ATTACH \<lparr>attach_domain = 1, attach_endpoint = 0x100\<rparr>,
      ATTACH \<lparr>attach_domain = 2, attach_endpoint = 0x100\<rparr>] = None"
  by (simp add: attached_state_def example_defs eval_defs
        virtio_iommu_detach_endpoint_from_domain_def)

subsection \<open>Migration\<close>

text \<open>
  C8. Saving and loading does not reproduce the state that ATTACH(1, 1), MAP(1, [10, 5]),
  MAP(1, [0, 8]) and MAP(1, [6, 12]) build. Endpoint 1 sees three mappings before the
  snapshot. Loading inserts the pairs in the order saved: \<open>[0, 8]\<close> becomes the root,
  \<open>[10, 5]\<close> goes right, and \<open>[6, 12]\<close> compares equal to \<open>[0, 8]\<close>, so the
  insertion replaces the value of that key. After the round trip the endpoint sees two
  mappings, \<open>[6, 12]\<close> is gone and \<open>[0, 8]\<close> is bound to \<open>0x2000\<close>. The
  reference count of the tree is 1 after loading, where it was 2: the fix-up links the
  endpoint and takes no reference.
\<close>

theorem snapshot_round_trip_loses_mapping:
  "run_commands virtio_iommu_device_realize overlap_commands =
     Some ([VIRTIO_IOMMU_S_OK, VIRTIO_IOMMU_S_OK, VIRTIO_IOMMU_S_OK, VIRTIO_IOMMU_S_OK],
           overlap_state) \<and>
   endpoint_mappings overlap_state 1 =
     [(\<lparr>low = 0, high = 8\<rparr>, \<lparr>phys_addr = 0x1000, flags = 3\<rparr>),
      (\<lparr>low = 10, high = 5\<rparr>, \<lparr>phys_addr = 0, flags = 3\<rparr>),
      (\<lparr>low = 6, high = 12\<rparr>, \<lparr>phys_addr = 0x2000, flags = 3\<rparr>)] \<and>
   vmstate_load virtio_iommu_device_realize (vmstate_save overlap_state) =
     virtio_iommu_device_realize
       \<lparr>domains := [(1, \<lparr>d_id = 1,
                          d_mappings =
                            Node Leaf \<lparr>low = 0, high = 8\<rparr> \<lparr>phys_addr = 0x2000, flags = 3\<rparr>
                              (Node Leaf \<lparr>low = 10, high = 5\<rparr> \<lparr>phys_addr = 0, flags = 3\<rparr> Leaf),
                          d_mappings_ref = 1, d_endpoint_list = [1]\<rparr>)],
        endpoints := [(1, \<lparr>e_id = 1, e_domain = Some 1, e_viommu = False\<rparr>)]\<rparr> \<and>
   endpoint_mappings (vmstate_load virtio_iommu_device_realize (vmstate_save overlap_state)) 1 =
     [(\<lparr>low = 0, high = 8\<rparr>, \<lparr>phys_addr = 0x2000, flags = 3\<rparr>),
      (\<lparr>low = 10, high = 5\<rparr>, \<lparr>phys_addr = 0, flags = 3\<rparr>)]"
  by (simp add: overlap_commands_def overlap_state_def example_defs eval_defs
        endpoint_mappings_def vmstate_load_def vmstate_save_def save_domain_def
        load_tables_def load_domain_def load_endpoint_def load_mappings_def domain_preload_def
        iommu_post_load_def fix_endpoint_def reconstruct_ep_domain_link_def)

end
